theory Spec2Isabelle
  imports Main "HOL-Library.Code_Target_Nat"
begin

section \<open>Python values\<close>

text \<open>
  A Python \<open>str\<close> is a sequence of Unicode code points: the timetable files carry
  Cyrillic group codes and the en dash U+2013, which do not fit the 8-bit characters of
  \<open>string\<close>. A \<open>str\<close> is therefore a list of code points, and \<open>u\<close> writes an
  ASCII literal as one.

  The character classes below cover what the patterns of the source name: the ASCII
  digits, the Latin alphabet and the Cyrillic alphabet. Decimal digits of other scripts
  (which \<open>\d\<close> also accepts) and the case mappings outside these two alphabets are
  not modelled. Floating-point cell values are not modelled either, apart from the
  missing value NaN of a data frame.
\<close>

type_synonym ustr = "nat list"

definition u :: "string \<Rightarrow> ustr" where
  "u s = map of_char s"

datatype error =
    ValueError ustr
  | TypeError ustr
  | RuntimeError ustr
  | AttributeError ustr
  | NotEnoughValues nat
  | CsvMissingColumns "ustr list"
  | SheetMissingColumns "ustr list"
  | ParserError ustr
  | OverflowError
  | IntegrityError
  | PendingRollbackError
  | MultipleResultsFound
  | HTTPError ustr
  | InvalidFileException

text \<open>
  \<open>NotEnoughValues n\<close> is the \<open>ValueError\<close> of a tuple unpacking that expected six
  values and got \<open>n\<close>. \<open>CsvMissingColumns\<close> is the \<open>ValueError\<close> of
  \<open>_parse_csv\<close> and \<open>SheetMissingColumns\<close> the one of \<open>_df_to_lessons\<close>; their
  messages join the elements of a Python set, whose order is not specified, so the
  payload is to be read as a set. \<open>ParserError\<close> is what \<open>pandas.read_csv\<close> raises on a
  file it cannot read into a frame.
\<close>

definition is_digit :: "nat \<Rightarrow> bool" where
  "is_digit c = (48 \<le> c \<and> c \<le> 57)"

definition py_isspace :: "nat \<Rightarrow> bool" where
  "py_isspace c =
     ((9 \<le> c \<and> c \<le> 13) \<or> (28 \<le> c \<and> c \<le> 32) \<or> c = 133 \<or> c = 160 \<or> c = 5760
      \<or> (8192 \<le> c \<and> c \<le> 8202) \<or> c = 8232 \<or> c = 8233 \<or> c = 8239 \<or> c = 8287
      \<or> c = 12288)"

definition py_strip :: "ustr \<Rightarrow> ustr" where
  "py_strip s = rev (dropWhile py_isspace (rev (dropWhile py_isspace s)))"

definition upper_char :: "nat \<Rightarrow> nat" where
  "upper_char c =
     (if 97 \<le> c \<and> c \<le> 122 then c - 32
      else if 1072 \<le> c \<and> c \<le> 1103 then c - 32
      else if 1104 \<le> c \<and> c \<le> 1119 then c - 80
      else c)"

definition py_upper :: "ustr \<Rightarrow> ustr" where
  "py_upper s = map upper_char s"

definition lower_char :: "nat \<Rightarrow> nat" where
  "lower_char c =
     (if 65 \<le> c \<and> c \<le> 90 then c + 32
      else if 1040 \<le> c \<and> c \<le> 1071 then c + 32
      else if 1024 \<le> c \<and> c \<le> 1039 then c + 80
      else c)"

definition py_lower :: "ustr \<Rightarrow> ustr" where
  "py_lower s = map lower_char s"

fun starts_with :: "ustr \<Rightarrow> ustr \<Rightarrow> bool" where
  "starts_with [] s = True"
| "starts_with (p # ps) [] = False"
| "starts_with (p # ps) (c # cs) = (p = c \<and> starts_with ps cs)"

text \<open>\<open>py_in p s\<close> is Python's \<open>p in s\<close> on strings.\<close>

fun py_in :: "ustr \<Rightarrow> ustr \<Rightarrow> bool" where
  "py_in p [] = (p = [])"
| "py_in p (c # cs) = (starts_with p (c # cs) \<or> py_in p cs)"

fun py_join :: "ustr \<Rightarrow> ustr list \<Rightarrow> ustr" where
  "py_join sep [] = []"
| "py_join sep [x] = x"
| "py_join sep (x # y # ys) = x @ sep @ py_join sep (y # ys)"

text \<open>\<open>re.split\<close> on a one-character class: \<open>n\<close> separators give \<open>n + 1\<close> parts.\<close>

fun split_on :: "(nat \<Rightarrow> bool) \<Rightarrow> ustr \<Rightarrow> ustr list" where
  "split_on P [] = [[]]"
| "split_on P (c # cs) =
     (if P c then [] # split_on P cs
      else (case split_on P cs of [] \<Rightarrow> [[c]] | p # ps \<Rightarrow> (c # p) # ps))"

fun dec :: "nat \<Rightarrow> ustr" where
  "dec n = (if n < 10 then [48 + n] else dec (n div 10) @ [48 + n mod 10])"

declare dec.simps [simp del]

definition zfill :: "nat \<Rightarrow> ustr \<Rightarrow> ustr" where
  "zfill w s = replicate (w - length s) 48 @ s"

definition str_int :: "int \<Rightarrow> ustr" where
  "str_int i = (if i < 0 then 45 # dec (nat (- i)) else dec (nat i))"

text \<open>
  \<open>int(s)\<close> on a string: surrounding whitespace is dropped, a sign is optional, the
  digits may be grouped by single underscores.
\<close>

definition int_body_ok :: "ustr \<Rightarrow> bool" where
  "int_body_ok b =
     (case b of [] \<Rightarrow> False
      | c # cs \<Rightarrow> list_all (\<lambda>x. is_digit x \<or> x = 95) b \<and> c \<noteq> 95 \<and> last b \<noteq> 95
                  \<and> \<not> py_in [95, 95] b)"

definition int_body_val :: "ustr \<Rightarrow> int" where
  "int_body_val b = fold (\<lambda>c acc. if c = 95 then acc else acc * 10 + (int c - 48)) b 0"

definition py_int :: "ustr \<Rightarrow> error + int" where
  "py_int s =
     (let t = py_strip s;
          neg = (case t of c # _ \<Rightarrow> c = 45 | [] \<Rightarrow> False);
          body = (case t of c # cs \<Rightarrow> if c = 45 \<or> c = 43 then cs else t | [] \<Rightarrow> [])
      in if int_body_ok body then Inr (if neg then - int_body_val body else int_body_val body)
         else Inl (ValueError s))"

subsection \<open>Dates and times\<close>

record pdate =
  dyear :: int
  dmonth :: int
  dday :: int

record ptime =
  thour :: int
  tminute :: int
  tsecond :: int

definition is_leap :: "int \<Rightarrow> bool" where
  "is_leap y = (y mod 4 = 0 \<and> (y mod 100 \<noteq> 0 \<or> y mod 400 = 0))"

definition days_in_month :: "int \<Rightarrow> int \<Rightarrow> int" where
  "days_in_month y m =
     (if m = 2 then (if is_leap y then 29 else 28)
      else if m = 4 \<or> m = 6 \<or> m = 9 \<or> m = 11 then 30 else 31)"

text \<open>The constructor \<open>date(year, month, day)\<close> and its range checks.\<close>

definition mk_date :: "int \<Rightarrow> int \<Rightarrow> int \<Rightarrow> error + pdate" where
  "mk_date y m d =
     (if y < 1 \<or> 9999 < y then Inl (ValueError (u ''year is out of range''))
      else if m < 1 \<or> 12 < m then Inl (ValueError (u ''month must be in 1..12''))
      else if d < 1 \<or> days_in_month y m < d
        then Inl (ValueError (u ''day is out of range for month''))
      else Inr \<lparr>dyear = y, dmonth = m, dday = d\<rparr>)"

text \<open>The constructor \<open>time(hour, minute)\<close>.\<close>

definition mk_time :: "int \<Rightarrow> int \<Rightarrow> error + ptime" where
  "mk_time h m =
     (if h < 0 \<or> 23 < h then Inl (ValueError (u ''hour must be in 0..23''))
      else if m < 0 \<or> 59 < m then Inl (ValueError (u ''minute must be in 0..59''))
      else Inr \<lparr>thour = h, tminute = m, tsecond = 0\<rparr>)"

definition iso_date :: "pdate \<Rightarrow> ustr" where
  "iso_date d =
     zfill 4 (dec (nat (dyear d))) @ u ''-'' @ zfill 2 (dec (nat (dmonth d))) @ u ''-''
       @ zfill 2 (dec (nat (dday d)))"

definition iso_time :: "ptime \<Rightarrow> ustr" where
  "iso_time t =
     zfill 2 (dec (nat (thour t))) @ u '':'' @ zfill 2 (dec (nat (tminute t))) @ u '':''
       @ zfill 2 (dec (nat (tsecond t)))"

text \<open>
  The format \<open>{:%d.%m.%Y}\<close> of a date and \<open>{:%H:%M}\<close> of a time. The year is
  written as the C library of Linux writes \<open>%Y\<close>, without leading zeros.
\<close>

definition fmt_dmY :: "pdate \<Rightarrow> ustr" where
  "fmt_dmY d =
     zfill 2 (dec (nat (dday d))) @ u ''.'' @ zfill 2 (dec (nat (dmonth d))) @ u ''.''
       @ dec (nat (dyear d))"

definition fmt_HM :: "ptime \<Rightarrow> ustr" where
  "fmt_HM t = zfill 2 (dec (nat (thour t))) @ u '':'' @ zfill 2 (dec (nat (tminute t)))"

subsection \<open>Cell values\<close>

text \<open>
  What a worksheet cell or a data-frame cell holds: nothing, a string, an integer, a
  boolean, a native datetime, date or time, or the missing value NaN.
\<close>

datatype cell =
    CNone
  | CStr ustr
  | CInt int
  | CBool bool
  | CDateTime pdate ptime
  | CDate pdate
  | CTime ptime
  | CNaN

definition py_str :: "cell \<Rightarrow> ustr" where
  "py_str c =
     (case c of
        CNone \<Rightarrow> u ''None''
      | CStr s \<Rightarrow> s
      | CInt i \<Rightarrow> str_int i
      | CBool b \<Rightarrow> (if b then u ''True'' else u ''False'')
      | CDateTime d t \<Rightarrow> iso_date d @ u '' '' @ iso_time t
      | CDate d \<Rightarrow> iso_date d
      | CTime t \<Rightarrow> iso_time t
      | CNaN \<Rightarrow> u ''nan'')"

definition truthy :: "cell \<Rightarrow> bool" where
  "truthy c =
     (case c of CNone \<Rightarrow> False | CStr s \<Rightarrow> s \<noteq> [] | CInt i \<Rightarrow> i \<noteq> 0 | CBool b \<Rightarrow> b
      | _ \<Rightarrow> True)"

text \<open>\<open>_safe_str\<close> of \<open>fetcher_parser.py\<close>.\<close>

definition safe_str :: "cell \<Rightarrow> ustr" where
  "safe_str v = (if v \<noteq> CNone then py_strip (py_str v) else [])"

section \<open>The patterns\<close>

text \<open>
  A bounded greedy repetition \<open>P{lo,hi}\<close>. In every pattern below the repetition is
  followed by a character outside the repeated class (or by the end of the text), so
  giving characters back never turns a failure into a match.
\<close>

definition rx_rep :: "(nat \<Rightarrow> bool) \<Rightarrow> nat \<Rightarrow> nat \<Rightarrow> ustr \<Rightarrow> (ustr \<times> ustr) option" where
  "rx_rep P lo hi s =
     (let g = takeWhile P (take hi s)
      in if length g < lo then None else Some (g, drop (length g) s))"

definition rx_lit :: "(nat \<Rightarrow> bool) \<Rightarrow> ustr \<Rightarrow> ustr option" where
  "rx_lit P s = (case s of c # r \<Rightarrow> if P c then Some r else None | [] \<Rightarrow> None)"

text \<open>
  \<open>GROUP_RE = ([A-YaA-ZYo\-]+\d{2,3})\<close> with \<open>re.I\<close>: the class holds the hyphen,
  the Latin letters and the Cyrillic letters U+0410..U+042F and U+0401, in both cases.
\<close>

definition in_group_class :: "nat \<Rightarrow> bool" where
  "in_group_class c =
     (c = 45 \<or> (65 \<le> c \<and> c \<le> 90) \<or> (97 \<le> c \<and> c \<le> 122)
      \<or> (1040 \<le> c \<and> c \<le> 1071) \<or> (1072 \<le> c \<and> c \<le> 1103) \<or> c = 1025 \<or> c = 1105)"

definition group_re_here :: "ustr \<Rightarrow> bool" where
  "group_re_here s =
     (case rx_rep in_group_class 1 (length s) s of
        None \<Rightarrow> False
      | Some (g, r) \<Rightarrow> rx_rep is_digit 2 3 r \<noteq> None)"

fun group_re_search :: "ustr \<Rightarrow> bool" where
  "group_re_search [] = False"
| "group_re_search (c # cs) = (group_re_here (c # cs) \<or> group_re_search cs)"

text \<open>
  \<open>DATE_CELL_RE = ^(\d{1,2})[.\-/](\d{1,2})[.\-/](\d{2,4})$\<close> with \<open>match\<close>;
  \<open>$\<close> also matches before a final newline.
\<close>

definition is_date_sep :: "nat \<Rightarrow> bool" where
  "is_date_sep c = (c = 46 \<or> c = 45 \<or> c = 47)"

definition date_cell_re :: "ustr \<Rightarrow> (ustr \<times> ustr \<times> ustr) option" where
  "date_cell_re s =
     (case rx_rep is_digit 1 2 s of None \<Rightarrow> None
      | Some (g1, r1) \<Rightarrow>
     (case rx_lit is_date_sep r1 of None \<Rightarrow> None
      | Some r2 \<Rightarrow>
     (case rx_rep is_digit 1 2 r2 of None \<Rightarrow> None
      | Some (g2, r3) \<Rightarrow>
     (case rx_lit is_date_sep r3 of None \<Rightarrow> None
      | Some r4 \<Rightarrow>
     (case rx_rep is_digit 2 4 r4 of None \<Rightarrow> None
      | Some (g3, r5) \<Rightarrow> if r5 = [] \<or> r5 = [10] then Some (g1, g2, g3) else None)))))"

text \<open>
  \<open>TIME_RE\<close> of \<open>google_sheets_import.py\<close> is compiled from the raw literal
  \<^verbatim>\<open>r"(\\d{1,2}):(\\d{2})\\s*[...]\\s*(\\d{1,2}):(\\d{2})"\<close>
  (the class holds the en dash, the em dash and the hyphen). In a raw literal \<^verbatim>\<open>\\\<close>
  is two backslashes, which the pattern language reads as one escaped backslash: the
  pattern \<^verbatim>\<open>\\d{1,2}\<close> is a backslash (code point 92) followed by one or two letters
  \<open>d\<close> (100), and \<^verbatim>\<open>\\s*\<close> is a backslash followed by any number of letters \<open>s\<close>
  (115). The groups are returned as the source's \<open>match.groups()\<close> gives them.
\<close>

definition is_backslash :: "nat \<Rightarrow> bool" where
  "is_backslash c = (c = 92)"

definition is_sheet_dash :: "nat \<Rightarrow> bool" where
  "is_sheet_dash c = (c = 8211 \<or> c = 8212 \<or> c = 45)"

text \<open>A group \<^verbatim>\<open>(\\d{lo,hi})\<close>: the backslash and the letters.\<close>

definition rx_bs_d :: "nat \<Rightarrow> nat \<Rightarrow> ustr \<Rightarrow> (ustr \<times> ustr) option" where
  "rx_bs_d lo hi s =
     (case rx_lit is_backslash s of None \<Rightarrow> None
      | Some r \<Rightarrow>
     (case rx_rep (\<lambda>c. c = 100) lo hi r of None \<Rightarrow> None
      | Some (g, r') \<Rightarrow> Some (92 # g, r')))"

definition rx_bs_s :: "ustr \<Rightarrow> ustr option" where
  "rx_bs_s s =
     (case rx_lit is_backslash s of None \<Rightarrow> None
      | Some r \<Rightarrow> Some (dropWhile (\<lambda>c. c = 115) r))"

definition time_re :: "ustr \<Rightarrow> (ustr \<times> ustr \<times> ustr \<times> ustr) option" where
  "time_re s =
     (case rx_bs_d 1 2 s of None \<Rightarrow> None
      | Some (g1, r1) \<Rightarrow>
     (case rx_lit (\<lambda>c. c = 58) r1 of None \<Rightarrow> None
      | Some r2 \<Rightarrow>
     (case rx_bs_d 2 2 r2 of None \<Rightarrow> None
      | Some (g2, r3) \<Rightarrow>
     (case rx_bs_s r3 of None \<Rightarrow> None
      | Some r4 \<Rightarrow>
     (case rx_lit is_sheet_dash r4 of None \<Rightarrow> None
      | Some r5 \<Rightarrow>
     (case rx_bs_s r5 of None \<Rightarrow> None
      | Some r6 \<Rightarrow>
     (case rx_bs_d 1 2 r6 of None \<Rightarrow> None
      | Some (g3, r7) \<Rightarrow>
     (case rx_lit (\<lambda>c. c = 58) r7 of None \<Rightarrow> None
      | Some r8 \<Rightarrow>
     (case rx_bs_d 2 2 r8 of None \<Rightarrow> None
      | Some (g4, r9) \<Rightarrow> Some (g1, g2, g3, g4))))))))))"

subsection \<open>strptime\<close>

text \<open>
  \<open>datetime.strptime\<close> turns each directive into a pattern of alternatives, tried in
  order, matches the whole format from the start of the text and raises when the match
  does not reach its end. Each function lists the matches of one directive in the order
  the alternatives are tried, with the rest of the text.
    \<^item> \<open>%H\<close> is \<open>2[0-3]|[0-1]\d|\d\<close>, \<open>%M\<close> is \<open>[0-5]\d|\d\<close>;
    \<^item> \<open>%d\<close> is \<open>3[0-1]|[1-2]\d|0[1-9]|[1-9]| [1-9]\<close>;
    \<^item> \<open>%m\<close> is \<open>1[0-2]|0[1-9]|[1-9]\<close>, \<open>%Y\<close> is \<open>\d\d\d\d\<close>.
\<close>

definition between :: "nat \<Rightarrow> nat \<Rightarrow> nat \<Rightarrow> bool" where
  "between lo hi c = (lo \<le> c \<and> c \<le> hi)"

definition two :: "(nat \<Rightarrow> bool) \<Rightarrow> (nat \<Rightarrow> bool) \<Rightarrow> ustr \<Rightarrow> (ustr \<times> ustr) list" where
  "two P Q s = (case s of a # b # r \<Rightarrow> if P a \<and> Q b then [([a, b], r)] else [] | _ \<Rightarrow> [])"

definition one :: "(nat \<Rightarrow> bool) \<Rightarrow> ustr \<Rightarrow> (ustr \<times> ustr) list" where
  "one P s = (case s of a # r \<Rightarrow> if P a then [([a], r)] else [] | [] \<Rightarrow> [])"

definition rx_H :: "ustr \<Rightarrow> (ustr \<times> ustr) list" where
  "rx_H s = two (\<lambda>c. c = 50) (between 48 51) s @ two (between 48 49) is_digit s @ one is_digit s"

definition rx_M :: "ustr \<Rightarrow> (ustr \<times> ustr) list" where
  "rx_M s = two (between 48 53) is_digit s @ one is_digit s"

definition rx_d :: "ustr \<Rightarrow> (ustr \<times> ustr) list" where
  "rx_d s =
     two (\<lambda>c. c = 51) (between 48 49) s @ two (between 49 50) is_digit s
       @ two (\<lambda>c. c = 48) (between 49 57) s @ one (between 49 57) s
       @ two (\<lambda>c. c = 32) (between 49 57) s"

definition rx_m :: "ustr \<Rightarrow> (ustr \<times> ustr) list" where
  "rx_m s =
     two (\<lambda>c. c = 49) (between 48 50) s @ two (\<lambda>c. c = 48) (between 49 57) s
       @ one (between 49 57) s"

definition rx_Y :: "ustr \<Rightarrow> (ustr \<times> ustr) list" where
  "rx_Y s =
     (case s of a # b # c # d # r \<Rightarrow>
        if is_digit a \<and> is_digit b \<and> is_digit c \<and> is_digit d then [([a, b, c, d], r)] else []
      | _ \<Rightarrow> [])"

definition rx_chr :: "nat \<Rightarrow> ustr \<Rightarrow> ustr list" where
  "rx_chr x s = (case s of c # r \<Rightarrow> if c = x then [r] else [] | [] \<Rightarrow> [])"

text \<open>\<open>datetime.strptime(s, "%H:%M").time()\<close>.\<close>

definition strptime_HM :: "ustr \<Rightarrow> error + ptime" where
  "strptime_HM s =
     (case concat (map (\<lambda>(h, r). concat (map (\<lambda>r2. map (\<lambda>(m, r3). (h, m, r3)) (rx_M r2))
                                           (rx_chr 58 r))) (rx_H s)) of
        [] \<Rightarrow> Inl (ValueError s)
      | (h, m, r3) # _ \<Rightarrow>
          if r3 \<noteq> [] then Inl (ValueError r3)
          else Inr \<lparr>thour = int_body_val h, tminute = int_body_val m, tsecond = 0\<rparr>)"

text \<open>\<open>datetime.strptime(s, "%d.%m.%Y").date()\<close>.\<close>

definition strptime_dmY :: "ustr \<Rightarrow> error + pdate" where
  "strptime_dmY s =
     (case concat (map (\<lambda>(d, r). concat (map (\<lambda>r2. concat (map (\<lambda>(m, r3).
              concat (map (\<lambda>r4. map (\<lambda>(y, r5). (d, m, y, r5)) (rx_Y r4)) (rx_chr 46 r3)))
              (rx_m r2))) (rx_chr 46 r))) (rx_d s)) of
        [] \<Rightarrow> Inl (ValueError s)
      | (d, m, y, r5) # _ \<Rightarrow>
          if r5 \<noteq> [] then Inl (ValueError r5)
          else mk_date (int_body_val y) (int_body_val m) (int_body_val (py_strip d)))"

section \<open>The workbook parser\<close>

text \<open>The validated record \<open>Lesson\<close> of \<open>fetcher_parser.py\<close>.\<close>

record lesson =
  group_code :: ustr
  date :: pdate
  start_time :: ptime
  end_time :: ptime
  subject :: ustr
  teacher :: "ustr option"
  room :: "ustr option"

text \<open>\<open>_parse_time\<close>: the text is split at every hyphen or dash.\<close>

definition is_dash :: "nat \<Rightarrow> bool" where
  "is_dash c = (c = 8208 \<or> c = 8211 \<or> c = 8212 \<or> c = 45)"

definition parse_time :: "ustr \<Rightarrow> error + (ptime \<times> ptime)" where
  "parse_time cell_value =
     (if cell_value = [] then Inl (ValueError (u ''Empty time''))
      else (case split_on is_dash cell_value of
              [p0, p1] \<Rightarrow>
                (case strptime_HM (py_strip p0) of Inl e \<Rightarrow> Inl e
                 | Inr t1 \<Rightarrow>
                (case strptime_HM (py_strip p1) of Inl e \<Rightarrow> Inl e
                 | Inr t2 \<Rightarrow> Inr (t1, t2)))
            | _ \<Rightarrow> Inl (ValueError cell_value)))"

text \<open>
  The date of a row (lines 150 to 162 of \<open>parse_excel\<close>): a datetime gives its date, a
  date is taken as it is, anything else is matched against \<open>DATE_CELL_RE\<close>.
\<close>

definition parse_date_cell :: "cell \<Rightarrow> error + pdate" where
  "parse_date_cell date_val =
     (case date_val of
        CDateTime d t \<Rightarrow> Inr d
      | CDate d \<Rightarrow> Inr d
      | CStr s \<Rightarrow>
          (case date_cell_re s of
             None \<Rightarrow> Inl (ValueError s)
           | Some (g1, g2, g3) \<Rightarrow>
          (case py_int g1 of Inl e \<Rightarrow> Inl e | Inr day \<Rightarrow>
          (case py_int g2 of Inl e \<Rightarrow> Inl e | Inr month \<Rightarrow>
          (case py_int g3 of Inl e \<Rightarrow> Inl e | Inr year \<Rightarrow>
             mk_date (if year < 100 then year + 2000 else year) month day))))
      | _ \<Rightarrow> Inl (TypeError (u ''expected string'')))"

text \<open>
  One data row (the body of the loop at line 145). The six values are the first six
  cells after \<open>_safe_str\<close>, so each of them is a string whatever the cell held; the
  unpacking fails when the row has fewer than six cells. A row with a bad date or a bad
  time is skipped (\<open>None\<close>).
\<close>

definition lesson_of_row :: "cell list \<Rightarrow> error + lesson option" where
  "lesson_of_row row =
     (case map safe_str (take 6 row) of
        [date_val, time_val, subject_val, teacher_val, room_val, group_val] \<Rightarrow>
          if \<not> (date_val \<noteq> [] \<and> time_val \<noteq> [] \<and> subject_val \<noteq> [] \<and> group_val \<noteq> [])
          then Inr None
          else (case parse_date_cell (CStr date_val) of
                  Inl e \<Rightarrow> Inr None
                | Inr lesson_date \<Rightarrow>
               (case parse_time time_val of
                  Inl e \<Rightarrow> Inr None
                | Inr (start_t, end_t) \<Rightarrow>
                    Inr (Some \<lparr>group_code = py_upper group_val, date = lesson_date,
                               start_time = start_t, end_time = end_t,
                               subject = subject_val,
                               teacher = (if teacher_val = [] then None else Some teacher_val),
                               room = (if room_val = [] then None else Some room_val)\<rparr>)))
      | vals \<Rightarrow> Inl (NotEnoughValues (length vals)))"

fun read_rows :: "cell list list \<Rightarrow> lesson list \<Rightarrow> error + lesson list" where
  "read_rows [] lessons = Inr lessons"
| "read_rows (row # rows) lessons =
     (case lesson_of_row row of
        Inl e \<Rightarrow> Inl e
      | Inr None \<Rightarrow> read_rows rows lessons
      | Inr (Some l) \<Rightarrow> read_rows rows (lessons @ [l]))"

text \<open>
  The header scan (lines 133 to 139). The rows are tuples of plain values
  (\<open>values_only=True\<close>), and no plain value has an attribute \<open>row\<close>: \<open>row_attr\<close> is
  what \<open>hasattr(row[0], "row")\<close> and \<open>row[0].row\<close> find.
\<close>

definition cell_or_empty :: "cell \<Rightarrow> cell" where
  "cell_or_empty c = (if truthy c then c else CStr [])"

definition has_group_token :: "cell list \<Rightarrow> bool" where
  "has_group_token row = list_ex (\<lambda>c. group_re_search (py_str (cell_or_empty c))) row"

definition row_attr :: "cell \<Rightarrow> nat option" where
  "row_attr c = None"

fun header_row_idx :: "cell list list \<Rightarrow> nat option" where
  "header_row_idx [] = None"
| "header_row_idx (row # rows) =
     (if has_group_token row
      then (case map row_attr (take 1 row) of [Some r] \<Rightarrow> Some r | _ \<Rightarrow> Some 1)
      else header_row_idx rows)"

text \<open>
  The position (counted from 1) of the first row that holds a group-code token: the row
  at which the scan stops.
\<close>

fun found_header_row :: "cell list list \<Rightarrow> nat option" where
  "found_header_row [] = None"
| "found_header_row (row # rows) =
     (if has_group_token row then Some 1 else map_option Suc (found_header_row rows))"

text \<open>
  A worksheet is given by its stored rows, each with the cells it holds from the first
  column on. \<open>ws.iter_rows\<close> yields every row with \<open>ws.max_column\<close> values: a row
  that holds fewer cells is filled up with empty values. \<open>max_column\<close> is the greatest
  number of cells in a row, and 1 for a sheet without cells.
\<close>

definition max_column :: "cell list list \<Rightarrow> nat" where
  "max_column ws = foldr max (map length ws) 1"

definition pad_row :: "nat \<Rightarrow> cell list \<Rightarrow> cell list" where
  "pad_row w row = row @ replicate (w - length row) CNone"

definition iter_rows :: "cell list list \<Rightarrow> cell list list" where
  "iter_rows ws = map (pad_row (max_column ws)) ws"

text \<open>
  \<open>parse_excel\<close> on the first worksheet. The scan reads the rows 1 to 10 (the rows
  after the last stored one, which \<open>iter_rows\<close> also yields up to row 10, are empty
  and hold no token); \<open>min_row = header_row_idx + 1\<close> leaves out the first
  \<open>header_row_idx\<close> rows.
\<close>

definition parse_excel :: "cell list list \<Rightarrow> error + lesson list" where
  "parse_excel ws =
     (case header_row_idx (take 10 (iter_rows ws)) of
        None \<Rightarrow> Inl (RuntimeError (u ''Group header not found in Excel''))
      | Some idx \<Rightarrow> read_rows (drop idx (iter_rows ws)) [])"

section \<open>The store\<close>

text \<open>
  The tables of \<open>db/models.py\<close>, one record per mapped class with the columns the
  class declares. The timestamps that default to the wall clock (\<open>added_at\<close>,
  \<open>created_at\<close>) are left out.
\<close>

record group_row =
  g_id :: nat
  g_faculty_id :: nat
  g_code :: ustr
  g_course :: int

record teacher_row =
  t_id :: nat
  t_name :: ustr

record room_row =
  r_id :: nat
  r_building :: ustr
  r_number :: ustr

record source_file_row =
  sf_id :: nat
  sf_url :: ustr
  sf_sha256 :: ustr
  sf_semester :: "ustr option"

record lesson_row =
  l_id :: nat
  l_group_id :: nat
  l_date :: pdate
  l_start_time :: ptime
  l_end_time :: ptime
  l_subject :: ustr
  l_teacher_id :: "nat option"
  l_room_id :: "nat option"
  l_source_id :: "nat option"

record tables =
  tbl_group :: "group_row list"
  tbl_teacher :: "teacher_row list"
  tbl_room :: "room_row list"
  tbl_source_file :: "source_file_row list"
  tbl_lesson :: "lesson_row list"

text \<open>
  One database session: \<open>committed\<close> is what the store holds, \<open>current\<close> is what the
  session's open transaction sees (the store with the rows added and flushed since the
  last commit). A flush that the store rejects rolls the transaction back and leaves the
  session unusable until \<open>rollback\<close> is called: every later statement raises.
\<close>

record session =
  committed :: tables
  current :: tables
  needs_rollback :: bool

definition new_session :: "tables \<Rightarrow> session" where
  "new_session store = \<lparr>committed = store, current = store, needs_rollback = False\<rparr>"

definition commit :: "session \<Rightarrow> (error + unit) \<times> session" where
  "commit db =
     (if needs_rollback db then (Inl PendingRollbackError, db)
      else (Inr (), db\<lparr>committed := current db\<rparr>))"

definition rollback :: "session \<Rightarrow> session" where
  "rollback db = db\<lparr>current := committed db, needs_rollback := False\<rparr>"

definition flush_failed :: "session \<Rightarrow> session" where
  "flush_failed db = db\<lparr>current := committed db, needs_rollback := True\<rparr>"

text \<open>An autoincremented primary key.\<close>

definition next_id :: "nat list \<Rightarrow> nat" where
  "next_id ids = Suc (fold max ids 0)"

definition scalar_one_or_none :: "nat list \<Rightarrow> error + nat option" where
  "scalar_one_or_none xs =
     (case xs of [] \<Rightarrow> Inr None | [x] \<Rightarrow> Inr (Some x) | _ \<Rightarrow> Inl MultipleResultsFound)"

subsection \<open>upsert_source_file\<close>

record source_file_meta =
  m_url :: ustr
  m_sha256 :: ustr
  m_semester :: "ustr option"

text \<open>
  The insert of a new \<open>SourceFile\<close> row and its flush: both \<open>url\<close> and \<open>sha256\<close>
  are declared unique.
\<close>

definition insert_source_file :: "source_file_meta \<Rightarrow> session \<Rightarrow> (error + nat) \<times> session" where
  "insert_source_file meta db =
     (let rows = tbl_source_file (current db)
      in if list_ex (\<lambda>r. sf_url r = m_url meta \<or> sf_sha256 r = m_sha256 meta) rows
         then (Inl IntegrityError, flush_failed db)
         else (let new_id = next_id (map sf_id rows)
               in (Inr new_id,
                   db\<lparr>current := (current db)\<lparr>tbl_source_file :=
                        rows @ [\<lparr>sf_id = new_id, sf_url = m_url meta,
                                 sf_sha256 = m_sha256 meta,
                                 sf_semester = m_semester meta\<rparr>]\<rparr>\<rparr>)))"

definition upsert_source_file :: "source_file_meta \<Rightarrow> session \<Rightarrow> (error + nat) \<times> session" where
  "upsert_source_file meta db =
     (if needs_rollback db then (Inl PendingRollbackError, db)
      else (case scalar_one_or_none
                   (map sf_id (filter (\<lambda>r. sf_sha256 r = m_sha256 meta)
                                      (tbl_source_file (current db)))) of
              Inl e \<Rightarrow> (Inl e, db)
            | Inr (Some existing_id) \<Rightarrow>
                if existing_id \<noteq> 0 then (Inr existing_id, db) else insert_source_file meta db
            | Inr None \<Rightarrow> insert_source_file meta db))"

subsection \<open>bulk_insert_lessons\<close>

text \<open>The three lookup caches of one call, with the session they read and write.\<close>

record batch =
  db :: session
  group_cache :: "ustr \<rightharpoonup> nat"
  room_cache :: "ustr \<rightharpoonup> nat"
  teacher_cache :: "ustr \<rightharpoonup> nat"

definition get_group :: "ustr \<Rightarrow> batch \<Rightarrow> (error + nat) \<times> batch" where
  "get_group code b =
     (case group_cache b code of
        Some gid \<Rightarrow> (Inr gid, b)
      | None \<Rightarrow>
          if needs_rollback (db b) then (Inl PendingRollbackError, b)
          else (case scalar_one_or_none
                       (map g_id (filter (\<lambda>g. g_code g = code) (tbl_group (current (db b))))) of
                  Inl e \<Rightarrow> (Inl e, b)
                | Inr None \<Rightarrow>
                    (Inl (RuntimeError (u ''Unknown group '' @ code
                                         @ u ''; import group seeds first'')), b)
                | Inr (Some gid) \<Rightarrow> (Inr gid, b\<lparr>group_cache := (group_cache b)(code \<mapsto> gid)\<rparr>)))"

text \<open>\<open>str.partition\<close> at the first hyphen, and line 238 of \<open>_get_or_create_room\<close>.\<close>

definition partition_hyphen :: "ustr \<Rightarrow> ustr \<times> ustr \<times> ustr" where
  "partition_hyphen s =
     (case dropWhile (\<lambda>c. c \<noteq> 45) s of
        [] \<Rightarrow> (s, [], [])
      | c # rest \<Rightarrow> (takeWhile (\<lambda>c. c \<noteq> 45) s, [c], rest))"

definition room_key_parts :: "ustr \<Rightarrow> ustr \<times> ustr" where
  "room_key_parts room_name =
     (if py_in [45] room_name
      then (case partition_hyphen room_name of (building, sep, number) \<Rightarrow> (building, number))
      else ([], room_name))"

definition get_or_create_room :: "ustr \<Rightarrow> batch \<Rightarrow> (error + nat) \<times> batch" where
  "get_or_create_room room_name b =
     (case room_cache b room_name of
        Some rid \<Rightarrow> (Inr rid, b)
      | None \<Rightarrow>
          (case room_key_parts room_name of (building, number) \<Rightarrow>
          if needs_rollback (db b) then (Inl PendingRollbackError, b)
          else (let rows = tbl_room (current (db b))
                in case scalar_one_or_none
                          (map r_id (filter (\<lambda>r. r_building r = building \<and> r_number r = number)
                                            rows)) of
                  Inl e \<Rightarrow> (Inl e, b)
                | Inr (Some rid) \<Rightarrow> (Inr rid, b\<lparr>room_cache := (room_cache b)(room_name \<mapsto> rid)\<rparr>)
                | Inr None \<Rightarrow>
                    (let rid = next_id (map r_id rows)
                     in (Inr rid,
                         b\<lparr>db := (db b)\<lparr>current := (current (db b))\<lparr>tbl_room :=
                                rows @ [\<lparr>r_id = rid, r_building = building,
                                         r_number = number\<rparr>]\<rparr>\<rparr>,
                           room_cache := (room_cache b)(room_name \<mapsto> rid)\<rparr>)))))"

definition get_or_create_teacher :: "ustr \<Rightarrow> batch \<Rightarrow> (error + nat) \<times> batch" where
  "get_or_create_teacher name b =
     (case teacher_cache b name of
        Some tid \<Rightarrow> (Inr tid, b)
      | None \<Rightarrow>
          if needs_rollback (db b) then (Inl PendingRollbackError, b)
          else (let rows = tbl_teacher (current (db b))
                in case scalar_one_or_none (map t_id (filter (\<lambda>t. t_name t = name) rows)) of
                  Inl e \<Rightarrow> (Inl e, b)
                | Inr (Some tid) \<Rightarrow> (Inr tid, b\<lparr>teacher_cache := (teacher_cache b)(name \<mapsto> tid)\<rparr>)
                | Inr None \<Rightarrow>
                    (let tid = next_id (map t_id rows)
                     in (Inr tid,
                         b\<lparr>db := (db b)\<lparr>current := (current (db b))\<lparr>tbl_teacher :=
                                rows @ [\<lparr>t_id = tid, t_name = name\<rparr>]\<rparr>\<rparr>,
                           teacher_cache := (teacher_cache b)(name \<mapsto> tid)\<rparr>))))"

text \<open>
  An optional dimension: \<open>f(x) if x else None\<close>, where an absent or empty string is
  false.
\<close>

definition resolve_opt ::
  "(ustr \<Rightarrow> batch \<Rightarrow> (error + nat) \<times> batch) \<Rightarrow> ustr option \<Rightarrow> batch
     \<Rightarrow> (error + nat option) \<times> batch" where
  "resolve_opt f x b =
     (case x of
        None \<Rightarrow> (Inr None, b)
      | Some s \<Rightarrow>
          if s = [] then (Inr None, b)
          else (case f s b of (Inl e, b') \<Rightarrow> (Inl e, b') | (Inr i, b') \<Rightarrow> (Inr (Some i), b')))"

text \<open>The body of the loop at line 262: resolve the three references, add the row.\<close>

definition add_lesson :: "nat \<Rightarrow> lesson \<Rightarrow> batch \<Rightarrow> (error + unit) \<times> batch" where
  "add_lesson source_id rec b =
     (case get_group (group_code rec) b of
        (Inl e, b1) \<Rightarrow> (Inl e, b1)
      | (Inr gid, b1) \<Rightarrow>
     (case resolve_opt get_or_create_room (room rec) b1 of
        (Inl e, b2) \<Rightarrow> (Inl e, b2)
      | (Inr rid, b2) \<Rightarrow>
     (case resolve_opt get_or_create_teacher (teacher rec) b2 of
        (Inl e, b3) \<Rightarrow> (Inl e, b3)
      | (Inr tid, b3) \<Rightarrow>
          (let rows = tbl_lesson (current (db b3))
           in (Inr (),
               b3\<lparr>db := (db b3)\<lparr>current := (current (db b3))\<lparr>tbl_lesson :=
                     rows @ [\<lparr>l_id = next_id (map l_id rows), l_group_id = gid,
                              l_date = date rec, l_start_time = start_time rec,
                              l_end_time = end_time rec, l_subject = subject rec,
                              l_teacher_id = tid, l_room_id = rid,
                              l_source_id = Some source_id\<rparr>]\<rparr>\<rparr>\<rparr>)))))"

fun add_lessons :: "nat \<Rightarrow> lesson list \<Rightarrow> batch \<Rightarrow> (error + unit) \<times> batch" where
  "add_lessons source_id [] b = (Inr (), b)"
| "add_lessons source_id (rec # recs) b =
     (case add_lesson source_id rec b of
        (Inl e, b') \<Rightarrow> (Inl e, b')
      | (Inr _, b') \<Rightarrow> add_lessons source_id recs b')"

definition bulk_insert_lessons :: "lesson list \<Rightarrow> nat \<Rightarrow> session \<Rightarrow> (error + unit) \<times> session" where
  "bulk_insert_lessons lessons source_id s =
     (case add_lessons source_id lessons
             \<lparr>db = s, group_cache = Map.empty, room_cache = Map.empty,
              teacher_cache = Map.empty\<rparr> of
        (Inl e, b) \<Rightarrow> (Inl e, db b)
      | (Inr _, b) \<Rightarrow> commit (db b))"

subsection \<open>get_session and the administrative import\<close>

text \<open>
  \<open>get_session\<close> of \<open>bot.py\<close>: a new session on the store, committed when the body
  returns and rolled back when the body or the commit raises. The result is the store
  afterwards.
\<close>

definition get_session :: "(session \<Rightarrow> (error + 'a) \<times> session) \<Rightarrow> tables \<Rightarrow> (error + 'a) \<times> tables" where
  "get_session body store =
     (case body (new_session store) of
        (Inl e, s1) \<Rightarrow> (Inl e, committed (rollback s1))
      | (Inr v, s1) \<Rightarrow>
          (case commit s1 of
             (Inl e, s2) \<Rightarrow> (Inl e, committed (rollback s2))
           | (Inr _, s2) \<Rightarrow> (Inr v, committed s2)))"

text \<open>\<open>_import_lessons\<close> of \<open>handlers/admin.py\<close>.\<close>

definition import_lessons :: "lesson list \<Rightarrow> source_file_meta \<Rightarrow> tables \<Rightarrow> (error + nat) \<times> tables" where
  "import_lessons lessons source store =
     get_session (\<lambda>s.
        case upsert_source_file source s of
          (Inl e, s1) \<Rightarrow> (Inl e, s1)
        | (Inr source_id, s1) \<Rightarrow>
            (case bulk_insert_lessons lessons source_id s1 of
               (Inl e, s2) \<Rightarrow> (Inl e, s2)
             | (Inr _, s2) \<Rightarrow> (Inr (length lessons), s2))) store"

section \<open>The sync orchestrator\<close>

text \<open>
  The network is a parameter: \<open>listing\<close> is what \<open>list_files\<close> returns or raises,
  \<open>fetch\<close> what \<open>download\<close> returns or raises for a URL. A downloaded file is known by
  the SHA-256 digest of its bytes (\<open>sha256_path\<close>) and by what \<open>load_workbook\<close>
  makes of them: the stored rows of the first worksheet, or an error.
\<close>

record file_link =
  link_url :: ustr
  link_filename :: ustr

record remote_file =
  file_sha256 :: ustr
  file_rows :: "error + cell list list"

record remote =
  listing :: "error + file_link list"
  fetch :: "ustr \<Rightarrow> error + remote_file"

text \<open>The body of the \<open>try\<close> at lines 292 to 300.\<close>

definition process_link :: "remote \<Rightarrow> file_link \<Rightarrow> session \<Rightarrow> (error + unit) \<times> session" where
  "process_link net link s =
     (case fetch net (link_url link) of
        Inl e \<Rightarrow> (Inl e, s)
      | Inr f \<Rightarrow>
     (case upsert_source_file
             \<lparr>m_url = link_url link, m_sha256 = file_sha256 f, m_semester = None\<rparr> s of
        (Inl e, s1) \<Rightarrow> (Inl e, s1)
      | (Inr sf, s1) \<Rightarrow>
          if sf = 0 then (Inr (), s1)
          else (case file_rows f of
                  Inl e \<Rightarrow> (Inl e, s1)
                | Inr ws \<Rightarrow>
               (case parse_excel ws of
                  Inl e \<Rightarrow> (Inl e, s1)
                | Inr lessons \<Rightarrow> bulk_insert_lessons lessons sf s1))))"

text \<open>
  The loop of \<open>sync\<close>: an exception of the body is logged with the URL of the link, and
  the loop goes on with the session as the failed body left it.
\<close>

fun sync_links ::
  "remote \<Rightarrow> file_link list \<Rightarrow> session \<Rightarrow> (ustr \<times> error) list \<Rightarrow> session \<times> (ustr \<times> error) list" where
  "sync_links net [] s log = (s, log)"
| "sync_links net (link # links) s log =
     (case process_link net link s of
        (Inl e, s') \<Rightarrow> sync_links net links s' (log @ [(link_url link, e)])
      | (Inr _, s') \<Rightarrow> sync_links net links s' log)"

text \<open>\<open>links[:limit]\<close> for a Python integer.\<close>

definition slice_to :: "int \<Rightarrow> 'a list \<Rightarrow> 'a list" where
  "slice_to n xs = (if 0 \<le> n then take (nat n) xs else take (length xs - nat (- n)) xs)"

text \<open>\<open>if limit: links = links[:limit]\<close>, where \<open>None\<close> and 0 are false.\<close>

definition apply_limit :: "int option \<Rightarrow> 'a list \<Rightarrow> 'a list" where
  "apply_limit limit links =
     (case limit of None \<Rightarrow> links | Some n \<Rightarrow> if n \<noteq> 0 then slice_to n links else links)"

text \<open>
  \<open>sync\<close> returns what it raises or returns, the session afterwards and the lines it
  logged. \<open>list_files\<close> is called before the loop, outside the \<open>try\<close>.
\<close>

definition sync ::
  "remote \<Rightarrow> int option \<Rightarrow> session \<Rightarrow> (error + unit) \<times> session \<times> (ustr \<times> error) list" where
  "sync net limit s =
     (case listing net of
        Inl e \<Rightarrow> (Inl e, s, [])
      | Inr links \<Rightarrow> (Inr (), sync_links net (apply_limit limit links) s []))"

text \<open>
  For stating what the loop does: the result of the body for each link in turn, each
  run on the session its predecessor left, and the log lines of the failed ones.
\<close>

fun outcomes :: "remote \<Rightarrow> file_link list \<Rightarrow> session \<Rightarrow> (error + unit) list" where
  "outcomes net [] s = []"
| "outcomes net (link # links) s =
     (case process_link net link s of (r, s') \<Rightarrow> r # outcomes net links s')"

fun failures :: "(file_link \<times> (error + unit)) list \<Rightarrow> (ustr \<times> error) list" where
  "failures [] = []"
| "failures ((link, Inl e) # rest) = (link_url link, e) # failures rest"
| "failures ((link, Inr v) # rest) = failures rest"

section \<open>Data frames\<close>

text \<open>
  A data frame as \<open>pandas.read_csv\<close> returns it: the column labels of the header and
  the rows, each with one cell per column. \<open>row_attr_get\<close> is the attribute access
  \<open>row.name\<close> on a row of \<open>itertuples\<close>; \<open>read_csv\<close> makes the labels distinct.
\<close>

record data_frame =
  columns :: "ustr list"
  frame_rows :: "cell list list"

definition row_attr_get :: "ustr list \<Rightarrow> cell list \<Rightarrow> ustr \<Rightarrow> error + cell" where
  "row_attr_get cols row name =
     (case map_of (zip cols row) name of None \<Rightarrow> Inl (AttributeError name) | Some c \<Rightarrow> Inr c)"

text \<open>\<open>getattr(row, name, None)\<close>.\<close>

definition row_getattr_default :: "ustr list \<Rightarrow> cell list \<Rightarrow> ustr \<Rightarrow> cell" where
  "row_getattr_default cols row name =
     (case map_of (zip cols row) name of None \<Rightarrow> CNone | Some c \<Rightarrow> c)"

subsection \<open>The delimited-text parser\<close>

text \<open>
  \<open>_parse_csv\<close> of \<open>handlers/admin.py\<close>. Three library functions are parameters:
  \<open>read\<close> is what \<open>pandas.read_csv\<close> makes of the file (a frame, or the error it
  raises), \<open>to_datetime\<close> is \<open>pandas.to_datetime\<close> on one cell, and \<open>opt_str\<close> is
  the validation of a field declared \<open>str | None\<close> by the record model.
\<close>

definition required_csv :: "ustr list" where
  "required_csv =
     [u ''group_code'', u ''date'', u ''start_time'', u ''end_time'', u ''subject'']"

definition csv_row ::
  "(cell \<Rightarrow> error + pdate \<times> ptime) \<Rightarrow> (cell \<Rightarrow> error + ustr option) \<Rightarrow> ustr list \<Rightarrow> cell list
     \<Rightarrow> error + lesson" where
  "csv_row to_datetime opt_str cols row =
     (case row_attr_get cols row (u ''group_code'') of Inl e \<Rightarrow> Inl e | Inr g \<Rightarrow>
     (case row_attr_get cols row (u ''date'') of Inl e \<Rightarrow> Inl e | Inr d \<Rightarrow>
     (case to_datetime d of Inl e \<Rightarrow> Inl e | Inr (d1, _) \<Rightarrow>
     (case row_attr_get cols row (u ''start_time'') of Inl e \<Rightarrow> Inl e | Inr st \<Rightarrow>
     (case to_datetime st of Inl e \<Rightarrow> Inl e | Inr (_, t1) \<Rightarrow>
     (case row_attr_get cols row (u ''end_time'') of Inl e \<Rightarrow> Inl e | Inr en \<Rightarrow>
     (case to_datetime en of Inl e \<Rightarrow> Inl e | Inr (_, t2) \<Rightarrow>
     (case row_attr_get cols row (u ''subject'') of Inl e \<Rightarrow> Inl e | Inr sb \<Rightarrow>
     (case opt_str (row_getattr_default cols row (u ''teacher'')) of Inl e \<Rightarrow> Inl e | Inr te \<Rightarrow>
     (case opt_str (row_getattr_default cols row (u ''room'')) of Inl e \<Rightarrow> Inl e | Inr ro \<Rightarrow>
        Inr \<lparr>group_code = py_upper (py_str g), date = d1, start_time = t1, end_time = t2,
             subject = py_str sb, teacher = te, room = ro\<rparr>))))))))))"

fun csv_rows ::
  "(cell \<Rightarrow> error + pdate \<times> ptime) \<Rightarrow> (cell \<Rightarrow> error + ustr option) \<Rightarrow> ustr list
     \<Rightarrow> cell list list \<Rightarrow> lesson list \<Rightarrow> error + lesson list" where
  "csv_rows to_datetime opt_str cols [] lessons = Inr lessons"
| "csv_rows to_datetime opt_str cols (row # rows) lessons =
     (case csv_row to_datetime opt_str cols row of
        Inl e \<Rightarrow> Inl e
      | Inr l \<Rightarrow> csv_rows to_datetime opt_str cols rows (lessons @ [l]))"

definition parse_csv ::
  "(cell \<Rightarrow> error + pdate \<times> ptime) \<Rightarrow> (cell \<Rightarrow> error + ustr option)
     \<Rightarrow> error + data_frame \<Rightarrow> error + lesson list" where
  "parse_csv to_datetime opt_str read =
     (case read of
        Inl e \<Rightarrow> Inl e
      | Inr df \<Rightarrow>
          (let missing = filter (\<lambda>c. \<not> List.member (columns df) c) required_csv
           in if missing \<noteq> [] then Inl (CsvMissingColumns missing)
              else csv_rows to_datetime opt_str (columns df) (frame_rows df) []))"

subsection \<open>The shared-sheet parser\<close>

text \<open>
  \<open>_df_to_lessons\<close> of \<open>google_sheets_import.py\<close>. The first \<open>rename\<close> maps the
  lower-cased, stripped form of every label to the label itself (a later label wins
  where two have the same form) and relabels the columns whose label is a key of that
  mapping.
\<close>

definition rename_columns :: "(ustr \<times> ustr) list \<Rightarrow> ustr list \<Rightarrow> ustr list" where
  "rename_columns mapping cols =
     map (\<lambda>c. case map_of mapping c of None \<Rightarrow> c | Some c' \<Rightarrow> c') cols"

definition normalise_columns :: "ustr list \<Rightarrow> ustr list" where
  "normalise_columns cols =
     (let cols1 = rename_columns (rev (map (\<lambda>c. (py_strip (py_lower c), c)) cols)) cols
      in if \<not> List.member cols1 (u ''group_code'') \<and> List.member cols1 (u ''group'')
         then rename_columns [(u ''group'', u ''group_code'')] cols1
         else cols1)"

definition required_sheet :: "ustr list" where
  "required_sheet = [u ''group_code'', u ''date'', u ''time'', u ''subject'']"

text \<open>
  One row (lines 80 to 110): \<open>None\<close> is a skipped row. A validation error of the record
  model skips the row; every other exception leaves the function.
\<close>

definition sheet_row ::
  "(cell \<Rightarrow> error + ustr option) \<Rightarrow> ustr list \<Rightarrow> cell list \<Rightarrow> error + lesson option" where
  "sheet_row opt_str cols row =
     (case row_attr_get cols row (u ''time'') of Inl e \<Rightarrow> Inl e | Inr tm \<Rightarrow>
     (case time_re (py_str tm) of
        None \<Rightarrow> Inr None
      | Some (g1, g2, g3, g4) \<Rightarrow>
     (case py_int g1 of Inl e \<Rightarrow> Inl e | Inr sh \<Rightarrow>
     (case py_int g2 of Inl e \<Rightarrow> Inl e | Inr sm \<Rightarrow>
     (case py_int g3 of Inl e \<Rightarrow> Inl e | Inr eh \<Rightarrow>
     (case py_int g4 of Inl e \<Rightarrow> Inl e | Inr em \<Rightarrow>
     (case mk_time sh sm of Inl e \<Rightarrow> Inl e | Inr start_t \<Rightarrow>
     (case mk_time eh em of Inl e \<Rightarrow> Inl e | Inr end_t \<Rightarrow>
     (case row_attr_get cols row (u ''date'') of Inl e \<Rightarrow> Inl e | Inr raw_date \<Rightarrow>
     (case (case raw_date of CDateTime d t \<Rightarrow> Inr d | _ \<Rightarrow> strptime_dmY (py_str raw_date)) of
        Inl e \<Rightarrow> Inl e
      | Inr lesson_date \<Rightarrow>
     (case row_attr_get cols row (u ''group_code'') of Inl e \<Rightarrow> Inl e | Inr g \<Rightarrow>
     (case row_attr_get cols row (u ''subject'') of Inl e \<Rightarrow> Inl e | Inr sb \<Rightarrow>
     (case opt_str (row_getattr_default cols row (u ''teacher'')) of Inl e \<Rightarrow> Inr None
      | Inr te \<Rightarrow>
     (case opt_str (row_getattr_default cols row (u ''room'')) of Inl e \<Rightarrow> Inr None
      | Inr ro \<Rightarrow>
        Inr (Some \<lparr>group_code = py_upper (py_str g), date = lesson_date,
                   start_time = start_t, end_time = end_t, subject = py_str sb,
                   teacher = te, room = ro\<rparr>)))))))))))))))"

fun sheet_rows ::
  "(cell \<Rightarrow> error + ustr option) \<Rightarrow> ustr list \<Rightarrow> cell list list \<Rightarrow> lesson list
     \<Rightarrow> error + lesson list" where
  "sheet_rows opt_str cols [] lessons = Inr lessons"
| "sheet_rows opt_str cols (row # rows) lessons =
     (case sheet_row opt_str cols row of
        Inl e \<Rightarrow> Inl e
      | Inr None \<Rightarrow> sheet_rows opt_str cols rows lessons
      | Inr (Some l) \<Rightarrow> sheet_rows opt_str cols rows (lessons @ [l]))"

definition df_to_lessons :: "(cell \<Rightarrow> error + ustr option) \<Rightarrow> data_frame \<Rightarrow> error + lesson list" where
  "df_to_lessons opt_str df =
     (let cols = normalise_columns (columns df);
          missing = filter (\<lambda>c. \<not> List.member cols c) required_sheet
      in if missing \<noteq> [] then Inl (SheetMissingColumns missing)
         else sheet_rows opt_str cols (frame_rows df) [])"

section \<open>The schedule texts of the bot\<close>

text \<open>
  The two module-level caches and the store. The expiry of the cache entries and their
  eviction are not modelled: an entry is there or not.
\<close>

record bot_state =
  store :: tables
  day_cache :: "(nat \<times> ustr) \<rightharpoonup> ustr"
  week_cache :: "(nat \<times> ustr) \<rightharpoonup> ustr"

definition no_lessons_marker :: ustr where
  "no_lessons_marker = [1079, 1072, 1085, 1103, 1090, 1080, 1081, 32, 1085, 1077, 1090]"

definition day_empty_text :: "pdate \<Rightarrow> ustr" where
  "day_empty_text when =
     [128197, 32, 1053, 1072, 32] @ fmt_dmY when @ [32] @ no_lessons_marker @ [33]"

definition day_title :: "pdate \<Rightarrow> ustr" where
  "day_title when =
     [128197, 32, 42, 42, 1056, 1072, 1089, 1087, 1080, 1089, 1072, 1085, 1080, 1077, 32,
      1085, 1072, 32] @ fmt_dmY when @ [42, 42]"

definition week_empty_text :: ustr where
  "week_empty_text =
     [8505, 65039, 32, 1053, 1072, 32, 1101, 1090, 1086, 1081, 32, 1085, 1077, 1076, 1077,
      1083, 1077, 32] @ no_lessons_marker @ [46]"

text \<open>
  The mapped class \<open>Lesson\<close> (lines 42 to 53 of \<open>db/models.py\<close>) declares the columns
  \<open>id\<close>, \<open>group_id\<close>, \<open>date\<close>, \<open>start_time\<close>, \<open>end_time\<close>, \<open>subject\<close>,
  \<open>teacher_id\<close>, \<open>room_id\<close>, \<open>source_id\<close>, \<open>created_at\<close> and no relationship, so
  a row has no attribute \<open>teacher\<close> or \<open>room\<close>: reading one raises
  \<open>AttributeError\<close>. \<open>read_relationship\<close> is that read; a related row, were there
  one, is given by the values the text takes from it.
\<close>

definition read_relationship :: "ustr \<Rightarrow> lesson_row \<Rightarrow> error + ustr list option" where
  "read_relationship name les = Inl (AttributeError name)"

text \<open>
  One line of a day's text (lines 96 to 99 of \<open>bot.py\<close>): the time range, with the en
  dash, then the teacher part, then the room part, then the line.
\<close>

definition lesson_line :: "nat \<Rightarrow> lesson_row \<Rightarrow> error + ustr" where
  "lesson_line i les =
     (let t_str = fmt_HM (l_start_time les) @ [8211] @ fmt_HM (l_end_time les)
      in case read_relationship (u ''teacher'') les of Inl e \<Rightarrow> Inl e | Inr tch \<Rightarrow>
        (case read_relationship (u ''room'') les of Inl e \<Rightarrow> Inl e | Inr rm \<Rightarrow>
           (let teacher_part = (case tch of
                                  None \<Rightarrow> []
                                | Some vs \<Rightarrow> [10, 95, 1087, 1088, 1077, 1087, 46, 58, 32]
                                             @ concat vs @ u ''_'');
                room_part = (case rm of
                               None \<Rightarrow> []
                             | Some vs \<Rightarrow> u '' ('' @ py_join (u ''-'') vs @ u '')'')
            in Inr (dec i @ u ''. `'' @ t_str @ u ''` **'' @ l_subject les @ u ''**''
                    @ room_part @ teacher_part))))"

fun lesson_lines :: "nat \<Rightarrow> lesson_row list \<Rightarrow> error + ustr list" where
  "lesson_lines i [] = Inr []"
| "lesson_lines i (les # rest) =
     (case lesson_line i les of
        Inl e \<Rightarrow> Inl e
      | Inr ln \<Rightarrow> (case lesson_lines (Suc i) rest of Inl e \<Rightarrow> Inl e | Inr lns \<Rightarrow> Inr (ln # lns)))"

definition seconds_of :: "ptime \<Rightarrow> int" where
  "seconds_of t = (thour t * 60 + tminute t) * 60 + tsecond t"

text \<open>
  The query of \<open>_markdown_schedule_for_day\<close>: the lessons of the group on the day,
  ordered by start time.
\<close>

definition lessons_for :: "tables \<Rightarrow> nat \<Rightarrow> pdate \<Rightarrow> lesson_row list" where
  "lessons_for t group_id when =
     sort_key (\<lambda>l. seconds_of (l_start_time l))
       (filter (\<lambda>l. l_group_id l = group_id \<and> l_date l = when) (tbl_lesson t))"

definition markdown_schedule_for_day :: "nat \<Rightarrow> pdate \<Rightarrow> bot_state \<Rightarrow> (error + ustr) \<times> bot_state" where
  "markdown_schedule_for_day group_id when st =
     (let key = (group_id, iso_date when)
      in case day_cache st key of
           Some text \<Rightarrow> (Inr text, st)
         | None \<Rightarrow>
             (let lessons = lessons_for (store st) group_id when
              in if lessons = []
                 then (Inr (day_empty_text when),
                       st\<lparr>day_cache := (day_cache st)(key \<mapsto> day_empty_text when)\<rparr>)
                 else (case lesson_lines 1 lessons of
                         Inl e \<Rightarrow> (Inl e, st)
                       | Inr lns \<Rightarrow>
                           (let text = py_join [10] (day_title when # lns)
                            in (Inr text, st\<lparr>day_cache := (day_cache st)(key \<mapsto> text)\<rparr>)))))"

text \<open>\<open>monday + timedelta(days=i)\<close>: a date after 9999-12-31 raises.\<close>

definition next_day :: "pdate \<Rightarrow> error + pdate" where
  "next_day d =
     (if dday d < days_in_month (dyear d) (dmonth d) then Inr (d\<lparr>dday := dday d + 1\<rparr>)
      else if dmonth d < 12 then Inr (d\<lparr>dmonth := dmonth d + 1, dday := 1\<rparr>)
      else if dyear d < 9999 then Inr \<lparr>dyear = dyear d + 1, dmonth = 1, dday = 1\<rparr>
      else Inl OverflowError)"

fun plus_days :: "pdate \<Rightarrow> nat \<Rightarrow> error + pdate" where
  "plus_days d 0 = Inr d"
| "plus_days d (Suc n) = (case plus_days d n of Inl e \<Rightarrow> Inl e | Inr d' \<Rightarrow> next_day d')"

text \<open>
  The loop of \<open>_markdown_schedule_for_week\<close> over the days \<open>i\<close> of the list, with the
  texts collected so far.
\<close>

fun week_days ::
  "nat \<Rightarrow> pdate \<Rightarrow> nat list \<Rightarrow> ustr list \<Rightarrow> bot_state \<Rightarrow> (error + ustr list) \<times> bot_state" where
  "week_days group_id monday [] texts st = (Inr texts, st)"
| "week_days group_id monday (i # rest) texts st =
     (case plus_days monday i of
        Inl e \<Rightarrow> (Inl e, st)
      | Inr d \<Rightarrow>
     (case markdown_schedule_for_day group_id d st of
        (Inl e, st') \<Rightarrow> (Inl e, st')
      | (Inr daily, st') \<Rightarrow>
          if py_in no_lessons_marker daily then week_days group_id monday rest texts st'
          else week_days group_id monday rest (texts @ [daily]) st'))"

definition markdown_schedule_for_week :: "nat \<Rightarrow> pdate \<Rightarrow> bot_state \<Rightarrow> (error + ustr) \<times> bot_state" where
  "markdown_schedule_for_week group_id monday st =
     (let key = (group_id, iso_date monday)
      in case week_cache st key of
           Some text \<Rightarrow> (Inr text, st)
         | None \<Rightarrow>
             (case week_days group_id monday [0, 1, 2, 3, 4, 5] [] st of
                (Inl e, st') \<Rightarrow> (Inl e, st')
              | (Inr texts, st') \<Rightarrow>
                  (let result = (if texts \<noteq> [] then py_join [10, 10] texts else week_empty_text)
                   in (Inr result, st'\<lparr>week_cache := (week_cache st')(key \<mapsto> result)\<rparr>))))"

section \<open>Example inputs\<close>

definition title_row :: "cell list" where
  "title_row = [CStr (u ''Timetable''), CNone, CNone, CNone, CNone, CNone]"

definition header_row :: "cell list" where
  "header_row = [CStr (u ''Group IS-101''), CNone, CNone, CNone, CNone, CNone]"

text \<open>A row with the en dash U+2013 in its time range and no group-code token.\<close>

definition consultation_row :: "cell list" where
  "consultation_row =
     [CStr (u ''01.09.24''), CStr (u ''09:00'' @ [8211] @ u ''10:35''), CStr (u ''Consultation''),
      CNone, CNone, CStr (u ''all'')]"

definition math_row :: "cell list" where
  "math_row =
     [CStr (u ''02.09.24''), CStr (u ''10:30-12:05''), CStr (u ''Math''), CNone, CNone,
      CStr (u ''is-101'')]"

text \<open>The same row with the date as the native datetime 2024-09-02 00:00:00.\<close>

definition math_row_native :: "cell list" where
  "math_row_native =
     [CDateTime \<lparr>dyear = 2024, dmonth = 9, dday = 2\<rparr> \<lparr>thour = 0, tminute = 0, tsecond = 0\<rparr>,
      CStr (u ''10:30-12:05''), CStr (u ''Math''), CNone, CNone, CStr (u ''is-101'')]"

definition math_lesson :: lesson where
  "math_lesson =
     \<lparr>group_code = u ''IS-101'', date = \<lparr>dyear = 2024, dmonth = 9, dday = 2\<rparr>,
      start_time = \<lparr>thour = 10, tminute = 30, tsecond = 0\<rparr>,
      end_time = \<lparr>thour = 12, tminute = 5, tsecond = 0\<rparr>,
      subject = u ''Math'', teacher = None, room = None\<rparr>"

definition consultation_lesson :: lesson where
  "consultation_lesson =
     \<lparr>group_code = u ''ALL'', date = \<lparr>dyear = 2024, dmonth = 9, dday = 1\<rparr>,
      start_time = \<lparr>thour = 9, tminute = 0, tsecond = 0\<rparr>,
      end_time = \<lparr>thour = 10, tminute = 35, tsecond = 0\<rparr>,
      subject = u ''Consultation'', teacher = None, room = None\<rparr>"



definition physics_row :: "cell list" where
  "physics_row =
     [CStr (u ''02.09.24''), CStr (u ''12:15-13:50''), CStr (u ''Physics''), CNone, CNone,
      CStr (u ''XX-999'')]"

definition history_row :: "cell list" where
  "history_row =
     [CStr (u ''03.09.24''), CStr (u ''09:00-10:35''), CStr (u ''History''), CNone, CNone,
      CStr (u ''IS-101'')]"

definition physics_lesson :: lesson where
  "physics_lesson =
     \<lparr>group_code = u ''XX-999'', date = \<lparr>dyear = 2024, dmonth = 9, dday = 2\<rparr>,
      start_time = \<lparr>thour = 12, tminute = 15, tsecond = 0\<rparr>,
      end_time = \<lparr>thour = 13, tminute = 50, tsecond = 0\<rparr>,
      subject = u ''Physics'', teacher = None, room = None\<rparr>"

text \<open>A store seeded with the one group IS-101.\<close>

definition seeded_store :: tables where
  "seeded_store =
     \<lparr>tbl_group = [\<lparr>g_id = 1, g_faculty_id = 1, g_code = u ''IS-101'', g_course = 1\<rparr>],
      tbl_teacher = [], tbl_room = [], tbl_source_file = [], tbl_lesson = []\<rparr>"

definition digest_a :: ustr where
  "digest_a = replicate 64 97"

definition digest_b :: ustr where
  "digest_b = replicate 64 98"

definition link_a :: file_link where
  "link_a = \<lparr>link_url = u ''https://guu.ru/files/a.xlsx'', link_filename = u ''a.xlsx''\<rparr>"

definition link_b :: file_link where
  "link_b = \<lparr>link_url = u ''https://guu.ru/files/b.xlsx'', link_filename = u ''b.xlsx''\<rparr>"

definition math_lesson_row :: lesson_row where
  "math_lesson_row =
     \<lparr>l_id = 1, l_group_id = 1, l_date = \<lparr>dyear = 2024, dmonth = 9, dday = 2\<rparr>,
      l_start_time = \<lparr>thour = 10, tminute = 30, tsecond = 0\<rparr>,
      l_end_time = \<lparr>thour = 12, tminute = 5, tsecond = 0\<rparr>,
      l_subject = u ''Math'', l_teacher_id = None, l_room_id = None, l_source_id = Some 1\<rparr>"

text \<open>
  The store after the file with digest \<open>digest_a\<close> and the rows \<open>header_row\<close>,
  \<open>math_row\<close> was imported from the URL of \<open>link_a\<close>.
\<close>

definition imported_store :: tables where
  "imported_store =
     seeded_store
       \<lparr>tbl_source_file := [\<lparr>sf_id = 1, sf_url = link_url link_a, sf_sha256 = digest_a,
                              sf_semester = None\<rparr>],
        tbl_lesson := [math_lesson_row]\<rparr>"

text \<open>The listing now has one link, at another URL, to a file with the same bytes.\<close>

definition same_content_net :: remote where
  "same_content_net =
     \<lparr>listing = Inr [link_b],
      fetch = (\<lambda>url. Inr \<lparr>file_sha256 = digest_a, file_rows = Inr [header_row, math_row]\<rparr>)\<rparr>"

text \<open>
  Two files: the second lesson of the first file names the unknown group XX-999, the
  second file is well formed.
\<close>

definition two_files_net :: remote where
  "two_files_net =
     \<lparr>listing = Inr [link_a, link_b],
      fetch = (\<lambda>url. if url = link_url link_a
                      then Inr \<lparr>file_sha256 = digest_a,
                                file_rows = Inr [header_row, math_row, physics_row]\<rparr>
                      else Inr \<lparr>file_sha256 = digest_b,
                                file_rows = Inr [header_row, history_row]\<rparr>)\<rparr>"

text \<open>The listing page cannot be fetched.\<close>

definition offline_net :: remote where
  "offline_net =
     \<lparr>listing = Inl (HTTPError (u ''503 Service Unavailable'')),
      fetch = (\<lambda>url. Inl (HTTPError (u ''503 Service Unavailable'')))\<rparr>"

text \<open>The first download fails, the second file is well formed.\<close>

definition flaky_net :: remote where
  "flaky_net =
     \<lparr>listing = Inr [link_a, link_b],
      fetch = (\<lambda>url. if url = link_url link_a
                      then Inl (HTTPError (u ''404 Not Found''))
                      else Inr \<lparr>file_sha256 = digest_b,
                                file_rows = Inr [header_row, history_row]\<rparr>)\<rparr>"

text \<open>A sheet export with the four required columns and one row.\<close>

definition sheet_frame :: data_frame where
  "sheet_frame =
     \<lparr>columns = [u ''group_code'', u ''date'', u ''time'', u ''subject''],
      frame_rows = [[CStr (u ''IS-101''), CStr (u ''02.09.2024''), CStr (u ''10:30-12:05''),
                     CStr (u ''Math'')]]\<rparr>"

text \<open>A delimited-text input without the column \<open>subject\<close>.\<close>

definition csv_without_subject :: data_frame where
  "csv_without_subject =
     \<lparr>columns = [u ''group_code'', u ''date'', u ''start_time'', u ''end_time'', u ''teacher''],
      frame_rows = [[CStr (u ''IS-101''), CStr (u ''02.09.2024''), CStr (u ''10:30''),
                     CStr (u ''12:05''), CStr (u ''Ivanov'')]]\<rparr>"

text \<open>
  What \<open>read_csv\<close> makes of the file with the header line
  \<open>group_code,date,start_time,end_time\<close>, a second line of four fields and a third
  line of five fields: the error of its tokenizer.
\<close>

definition ragged_csv_read :: "error + data_frame" where
  "ragged_csv_read = Inl (ParserError (u ''Expected 4 fields in line 3, saw 5''))"

text \<open>
  The week of Monday 2024-09-02: the group with id 1 has one lesson, on Wednesday
  2024-09-04; nothing is cached.
\<close>

definition monday :: pdate where
  "monday = \<lparr>dyear = 2024, dmonth = 9, dday = 2\<rparr>"

definition wednesday :: pdate where
  "wednesday = \<lparr>dyear = 2024, dmonth = 9, dday = 4\<rparr>"

definition wednesday_state :: bot_state where
  "wednesday_state =
     \<lparr>store = imported_store\<lparr>tbl_lesson := [math_lesson_row\<lparr>l_date := wednesday\<rparr>]\<rparr>,
      day_cache = Map.empty, week_cache = Map.empty\<rparr>"

definition empty_week_state :: bot_state where
  "empty_week_state = \<lparr>store = seeded_store, day_cache = Map.empty, week_cache = Map.empty\<rparr>"

section \<open>The workbook parser: properties\<close>

lemma six_elements: "length xs = 6 \<Longrightarrow> \<exists>a b c d e f. xs = [a, b, c, d, e, f]"
proof -
  assume "length xs = 6"
  then have "length xs = Suc (Suc (Suc (Suc (Suc (Suc 0)))))" by simp
  then show ?thesis by (auto simp: length_Suc_conv)
qed

lemma lesson_of_row_short:
  assumes "length row < 6"
  shows "lesson_of_row row = Inl (NotEnoughValues (length row))"
proof -
  define vals where "vals = map safe_str (take 6 row)"
  have len: "length vals = length row" using assms by (simp add: vals_def)
  then have "length vals < 6" using assms by simp
  then have "(case vals of
        [date_val, time_val, subject_val, teacher_val, room_val, group_val] \<Rightarrow>
          X date_val time_val subject_val teacher_val room_val group_val
      | vals \<Rightarrow> Inl (NotEnoughValues (length vals))) = Inl (NotEnoughValues (length vals))"
    for X :: "ustr \<Rightarrow> ustr \<Rightarrow> ustr \<Rightarrow> ustr \<Rightarrow> ustr \<Rightarrow> ustr \<Rightarrow> error + lesson option"
    by (auto split: list.splits)
  then show ?thesis unfolding lesson_of_row_def vals_def [symmetric] using len by simp
qed

lemma lesson_of_row_long:
  assumes "6 \<le> length row"
  shows "\<exists>r. lesson_of_row row = Inr r"
proof -
  have "length (map safe_str (take 6 row)) = 6" using assms by simp
  from six_elements [OF this] obtain a b c d e f
    where v: "map safe_str (take 6 row) = [a, b, c, d, e, f]" by auto
  show ?thesis unfolding lesson_of_row_def v
    by (simp split: sum.splits prod.splits)
qed

lemma read_rows_short:
  assumes "\<exists>r \<in> set rows. length r < 6"
  shows "\<exists>r \<in> set rows. length r < 6 \<and> read_rows rows acc = Inl (NotEnoughValues (length r))"
  using assms
proof (induction rows arbitrary: acc)
  case Nil
  then show ?case by simp
next
  case (Cons row rows)
  show ?case
  proof (cases "length row < 6")
    case True
    then show ?thesis by (simp add: lesson_of_row_short)
  next
    case False
    then obtain r where r: "lesson_of_row row = Inr r"
      using lesson_of_row_long [of row] by auto
    from False Cons.prems have "\<exists>r \<in> set rows. length r < 6" by auto
    then show ?thesis using Cons.IH r by (cases r) auto
  qed
qed










text \<open>
  Claim C2. The sheet below has a title in row 1, a well-formed lesson row without a
  group-code token in row 2, the first row with a group-code token in row 3 and a lesson
  row in row 4. The scan stops at row 3, and the parser reads the data rows from row 2:
  the lesson of row 2, which lies before the header row that was found, is returned.
\<close>

theorem parse_excel_header_in_third_row:
  "found_header_row (take 10 [title_row, consultation_row, header_row, math_row]) = Some 3
   \<and> parse_excel [title_row, consultation_row, header_row, math_row]
     = Inr [consultation_lesson, math_lesson]"
  by code_simp

text \<open>
  The texts of native dates. \<open>str\<close> of a datetime or a date begins with the four digits
  of the year, so \<open>DATE_CELL_RE\<close>, which allows two digits before the first separator,
  never matches it: a row whose date cell holds a native value never becomes a lesson.
\<close>

lemma dec_digits: "list_all is_digit (dec n)"
proof (induction n rule: dec.induct)
  case (1 n)
  show ?case
  proof (cases "n < 10")
    case True
    then show ?thesis by (subst dec.simps) (simp add: is_digit_def)
  next
    case False
    have "n mod 10 < 10" by simp
    then have "is_digit (48 + n mod 10)" unfolding is_digit_def by linarith
    with False 1 show ?thesis by (subst dec.simps) simp
  qed
qed

lemma zfill_digits: "list_all is_digit x \<Longrightarrow> list_all is_digit (zfill w x)"
  by (auto simp: zfill_def list_all_iff is_digit_def)

lemma zfill_length: "w \<le> length (zfill w x)"
  by (simp add: zfill_def)

lemma three_digits:
  assumes "list_all is_digit x" and "3 \<le> length x"
  shows "\<exists>a b c r. x = a # b # c # r \<and> is_digit a \<and> is_digit b \<and> is_digit c"
proof -
  from assms(2) have "Suc (Suc (Suc 0)) \<le> length x" by simp
  then obtain a b c r where "x = a # b # c # r"
    by (auto simp: Suc_le_length_iff)
  with assms(1) show ?thesis by simp
qed

lemma date_cell_re_three_digits:
  assumes "is_digit a" and "is_digit b" and "is_digit c"
  shows "date_cell_re (a # b # c # r) = None"
  using assms
  by (simp add: date_cell_re_def rx_rep_def rx_lit_def is_date_sep_def is_digit_def)

lemma dec_nonempty: "dec n \<noteq> []"
  by (subst dec.simps) simp

lemma last_zfill_digit: "is_digit (last (zfill w (dec n)))"
proof -
  have "last (zfill w (dec n)) = last (dec n)" by (simp add: zfill_def dec_nonempty)
  moreover have "last (dec n) \<in> set (dec n)" by (simp add: dec_nonempty)
  ultimately show ?thesis using dec_digits [of n] by (simp add: list_all_iff)
qed

lemma digit_not_space: "is_digit c \<Longrightarrow> \<not> py_isspace c"
  by (auto simp: is_digit_def py_isspace_def)

lemma py_strip_id:
  assumes "s \<noteq> []" and "\<not> py_isspace (hd s)" and "\<not> py_isspace (last s)"
  shows "py_strip s = s"
proof -
  from assms(1,2) have a: "dropWhile py_isspace s = s" by (cases s) auto
  from assms(1,3) have "dropWhile py_isspace (rev s) = rev s"
    by (cases "rev s") (auto simp: hd_rev [symmetric])
  with a show ?thesis by (simp add: py_strip_def)
qed

lemma iso_date_head:
  "\<exists>a b c r. iso_date d = a # b # c # r \<and> is_digit a \<and> is_digit b \<and> is_digit c"
proof -
  let ?x = "zfill 4 (dec (nat (dyear d)))"
  have "list_all is_digit ?x" by (simp add: zfill_digits dec_digits)
  moreover have "3 \<le> length ?x" using zfill_length [of 4 "dec (nat (dyear d))"] by simp
  ultimately obtain a b c r where "?x = a # b # c # r" "is_digit a" "is_digit b" "is_digit c"
    using three_digits by blast
  then show ?thesis by (simp add: iso_date_def)
qed

lemma safe_str_datetime:
  "\<exists>a b c r. safe_str (CDateTime d t) = a # b # c # r \<and> is_digit a \<and> is_digit b \<and> is_digit c"
proof -
  obtain a b c r where h: "iso_date d = a # b # c # r" "is_digit a" "is_digit b" "is_digit c"
    using iso_date_head by blast
  let ?s = "iso_date d @ u '' '' @ iso_time t"
  have l: "last ?s = last (zfill 2 (dec (nat (tsecond t))))"
    by (simp add: iso_time_def zfill_def dec_nonempty)
  have "py_strip ?s = ?s"
  proof (rule py_strip_id)
    show "?s \<noteq> []" using h by simp
    show "\<not> py_isspace (hd ?s)" using h by (simp add: digit_not_space)
    show "\<not> py_isspace (last ?s)" unfolding l by (rule digit_not_space [OF last_zfill_digit])
  qed
  then show ?thesis using h by (simp add: safe_str_def py_str_def)
qed

lemma safe_str_date:
  "\<exists>a b c r. safe_str (CDate d) = a # b # c # r \<and> is_digit a \<and> is_digit b \<and> is_digit c"
proof -
  obtain a b c r where h: "iso_date d = a # b # c # r" "is_digit a" "is_digit b" "is_digit c"
    using iso_date_head by blast
  have l: "last (iso_date d) = last (zfill 2 (dec (nat (dday d))))"
    by (simp add: iso_date_def zfill_def dec_nonempty)
  have "py_strip (iso_date d) = iso_date d"
  proof (rule py_strip_id)
    show "iso_date d \<noteq> []" using h by simp
    show "\<not> py_isspace (hd (iso_date d))" using h by (simp add: digit_not_space)
    show "\<not> py_isspace (last (iso_date d))" unfolding l
      by (rule digit_not_space [OF last_zfill_digit])
  qed
  then show ?thesis using h by (simp add: safe_str_def py_str_def)
qed

lemma native_date_row_never_lesson:
  assumes "c = CDateTime d t \<or> c = CDate d"
  shows "lesson_of_row (c # rest) \<noteq> Inr (Some l)"
proof (cases "6 \<le> length (c # rest)")
  case False
  then show ?thesis by (simp add: lesson_of_row_short)
next
  case True
  then have "length (map safe_str (take 6 (c # rest))) = 6" by simp
  from six_elements [OF this] obtain v1 v2 v3 v4 v5 v6
    where v: "map safe_str (take 6 (c # rest)) = [v1, v2, v3, v4, v5, v6]" by auto
  then have "v1 = safe_str c" by simp
  with assms safe_str_datetime [of d t] safe_str_date [of d]
  obtain a b c' r where "v1 = a # b # c' # r" "is_digit a" "is_digit b" "is_digit c'"
    by auto
  then have "parse_date_cell (CStr v1) = Inl (ValueError v1)"
    by (simp add: parse_date_cell_def date_cell_re_three_digits)
  then show ?thesis unfolding lesson_of_row_def v by simp
qed

text \<open>
  The textual dates. The three groups of a match are digit strings, which \<open>int\<close>
  accepts; a year below 100, and so every two-digit year, has 2000 added.
\<close>

lemma rx_rep_group:
  assumes "rx_rep P lo hi s = Some (g, r)"
  shows "list_all P g \<and> lo \<le> length g \<and> length g \<le> hi"
proof -
  from assms have g: "g = takeWhile P (take hi s)" and lo: "lo \<le> length g"
    by (auto simp: rx_rep_def Let_def split: if_splits)
  have "length (takeWhile P (take hi s)) \<le> length (take hi s)" by (rule length_takeWhile_le)
  then have "length g \<le> hi" using g by simp
  moreover have "list_all P g" unfolding g list_all_iff by (auto dest: set_takeWhileD)
  ultimately show ?thesis using lo by simp
qed

lemma date_cell_re_groups:
  assumes "date_cell_re s = Some (g1, g2, g3)"
  shows "list_all is_digit g1 \<and> 1 \<le> length g1 \<and> list_all is_digit g2 \<and> 1 \<le> length g2
         \<and> list_all is_digit g3 \<and> 2 \<le> length g3 \<and> length g3 \<le> 4"
  using assms
  by (auto simp: date_cell_re_def split: option.splits prod.splits if_splits dest!: rx_rep_group)

lemma py_in_member: "py_in [c, c] s \<Longrightarrow> c \<in> set s"
  by (induction s) auto

lemma py_int_digits:
  assumes "list_all is_digit g" and "g \<noteq> []"
  shows "py_int g = Inr (int_body_val g)"
proof -
  from assms obtain c cs where g: "g = c # cs" by (cases g) auto
  from assms have hd: "is_digit (hd g)" and la: "is_digit (last g)"
    by (auto simp: list_all_iff)
  then have st: "py_strip g = g" using assms(2) by (simp add: py_strip_id digit_not_space)
  have c: "is_digit c" using hd g by simp
  then have c1: "c \<noteq> 45" "c \<noteq> 43" "c \<noteq> 95" by (auto simp: is_digit_def)
  have "95 \<notin> set g" using assms(1) by (auto simp: list_all_iff is_digit_def)
  then have n: "\<not> py_in [95, 95] g" using py_in_member by blast
  have l: "last g \<noteq> 95" using la by (auto simp: is_digit_def)
  have a: "list_all (\<lambda>x. is_digit x \<or> x = 95) g" using assms(1) by (auto simp: list_all_iff)
  have "int_body_ok g" using a n l c1 g by (simp add: int_body_ok_def)
  then show ?thesis using st c1 g by (simp add: py_int_def Let_def)
qed

lemma two_digit_value:
  assumes "list_all is_digit g" and "length g = 2"
  shows "0 \<le> int_body_val g \<and> int_body_val g < 100"
proof -
  from assms(2) obtain a b where g: "g = [a, b]"
    by (cases g; simp; cases "tl g"; simp)
  with assms(1) show ?thesis by (auto simp: int_body_val_def is_digit_def)
qed

lemma parse_date_cell_text:
  assumes "date_cell_re s = Some (g1, g2, g3)"
  shows "parse_date_cell (CStr s)
           = mk_date (if int_body_val g3 < 100 then int_body_val g3 + 2000 else int_body_val g3)
                     (int_body_val g2) (int_body_val g1)"
proof -
  from date_cell_re_groups [OF assms]
  have "py_int g1 = Inr (int_body_val g1)" "py_int g2 = Inr (int_body_val g2)"
       "py_int g3 = Inr (int_body_val g3)"
    by (auto intro!: py_int_digits)
  then show ?thesis using assms by (simp add: parse_date_cell_def)
qed

lemma parse_date_cell_two_digit_year:
  assumes "date_cell_re s = Some (g1, g2, g3)" and "length g3 = 2"
  shows "parse_date_cell (CStr s) = mk_date (2000 + int_body_val g3) (int_body_val g2) (int_body_val g1)"
proof -
  from date_cell_re_groups [OF assms(1)] assms(2) two_digit_value [of g3]
  have "int_body_val g3 < 100" by simp
  then show ?thesis using parse_date_cell_text [OF assms(1)] by (simp add: add.commute)
qed

text \<open>
  Claim C7. The date pattern reads the text \<open>01.09.24\<close> as 2024-09-01, and a row with
  a textual date yields its lesson. The same row with the date as a native datetime
  value yields nothing: \<open>_safe_str\<close> has turned the cell into the text
  \<open>2024-09-02 00:00:00\<close> before the date is looked at, the pattern does not match it,
  and the row is skipped.
\<close>

theorem parse_excel_native_date_skipped:
  "parse_date_cell (CStr (safe_str (CStr (u ''01.09.24''))))
     = Inr \<lparr>dyear = 2024, dmonth = 9, dday = 1\<rparr>
   \<and> parse_excel [header_row, math_row] = Inr [math_lesson]
   \<and> safe_str (hd math_row_native) = u ''2024-09-02 00:00:00''
   \<and> parse_excel [header_row, math_row_native] = Inr []"
  by code_simp

section \<open>The dimension resolver: properties\<close>

lemma py_in_single: "py_in [c] s \<longleftrightarrow> c \<in> set s"
  by (induction s) auto

lemma partition_hyphen_found:
  assumes "45 \<in> set s"
  shows "\<exists>b n. partition_hyphen s = (b, [45], n) \<and> s = b @ [45] @ n \<and> 45 \<notin> set b"
proof -
  let ?P = "\<lambda>c::nat. c \<noteq> 45"
  from assms have ne: "dropWhile ?P s \<noteq> []" by (simp add: dropWhile_eq_Nil_conv)
  then obtain c rest where d: "dropWhile ?P s = c # rest" by (cases "dropWhile ?P s") auto
  have "\<not> ?P (hd (dropWhile ?P s))" using ne by (rule hd_dropWhile)
  with d have c: "c = 45" by simp
  have id: "takeWhile ?P s @ dropWhile ?P s = s" by simp
  have nb: "45 \<notin> set (takeWhile ?P s)" by (auto dest: set_takeWhileD)
  show ?thesis using d c id nb by (auto simp: partition_hyphen_def)
qed

text \<open>
  Claim C8. A room key with a hyphen (code point 45) is split at its first hyphen into
  building and number; a key without one has the empty building and is its own number.
\<close>

theorem room_key_parts_split:
  "(45 \<in> set s \<longrightarrow> (\<exists>b n. room_key_parts s = (b, n) \<and> s = b @ [45] @ n \<and> 45 \<notin> set b))
   \<and> (45 \<notin> set s \<longrightarrow> room_key_parts s = ([], s))"
  using partition_hyphen_found [of s]
  by (auto simp: room_key_parts_def py_in_single)

text \<open>The key \<open>101\<close>, and the key of building U+0411 and number \<open>204\<close>.\<close>

theorem room_key_parts_split_witness:
  "room_key_parts (u ''101'') = ([], u ''101'')
   \<and> room_key_parts [1041, 45, 50, 48, 52] = ([1041], u ''204'')"
proof -
  have "45 \<notin> set (u ''101'')" by (simp add: u_def)
  with room_key_parts_split [of "u ''101''"]
  have a: "room_key_parts (u ''101'') = ([], u ''101'')" by simp
  have "(45::nat) \<in> set [1041, 45, 50, 48, 52]" by simp
  with room_key_parts_split [of "[1041, 45, 50, 48, 52]"]
  obtain b n where r: "room_key_parts [1041, 45, 50, 48, 52] = (b, n)"
    and e: "[1041, 45, 50, 48, 52] = b @ [45] @ n" and nb: "45 \<notin> set b"
    by blast
  from e nb have "b = [1041] \<and> n = [50, 48, 52]"
    by (auto simp: Cons_eq_append_conv)
  with r have "room_key_parts [1041, 45, 50, 48, 52] = ([1041], u ''204'')"
    by (simp add: u_def)
  with a show ?thesis by simp
qed

text \<open>
  The resolver stores what the split gives: after a lookup that the cache did not
  answer, the room table has a row with the returned id whose building and number are
  the two parts of the key.
\<close>

lemma get_or_create_room_parts:
  assumes "room_cache b name = None"
    and "get_or_create_room name b = (Inr rid, b')"
  shows "\<exists>r \<in> set (tbl_room (current (db b'))).
           r_id r = rid \<and> (r_building r, r_number r) = room_key_parts name"
proof -
  obtain building number where k: "room_key_parts name = (building, number)"
    by (cases "room_key_parts name")
  let ?rows = "tbl_room (current (db b))"
  let ?hits = "filter (\<lambda>r. r_building r = building \<and> r_number r = number) ?rows"
  from assms k have nr: "\<not> needs_rollback (db b)"
    by (auto simp: get_or_create_room_def split: if_splits)
  show ?thesis
  proof (cases "scalar_one_or_none (map r_id ?hits)")
    case (Inl e)
    with assms k nr show ?thesis by (simp add: get_or_create_room_def Let_def)
  next
    case (Inr found)
    show ?thesis
    proof (cases found)
      case None
      with assms k nr Inr show ?thesis
        by (auto simp: get_or_create_room_def Let_def)
    next
      case (Some i)
      with Inr obtain r where "?hits = [r]" and "r_id r = i"
        by (auto simp: scalar_one_or_none_def split: list.splits)
      then have "r \<in> set ?hits" by simp
      then have "r \<in> set ?rows" and "r_building r = building" and "r_number r = number"
        by auto
      with assms k nr Inr Some \<open>r_id r = i\<close> show ?thesis
        by (auto simp: get_or_create_room_def Let_def)
    qed
  qed
qed

section \<open>The delimited-text parser: properties\<close>

text \<open>
  Claim C6, as the code has it. \<open>read_csv\<close> reads the whole file, every data row
  included, before the header is looked at: where it raises, its error is the result.
  Where it returns a frame whose header lacks a required column, \<open>_parse_csv\<close> fails
  with the error that names the missing required columns, exactly those, before any row
  is converted: the same error comes out for any rows and any conversions.
\<close>

theorem parse_csv_missing_columns:
  assumes "\<not> set required_csv \<subseteq> set (columns df)"
  shows "parse_csv to_datetime opt_str (Inr df)
           = Inl (CsvMissingColumns (filter (\<lambda>c. c \<notin> set (columns df)) required_csv))
         \<and> set (filter (\<lambda>c. c \<notin> set (columns df)) required_csv)
             = set required_csv - set (columns df)
         \<and> parse_csv to_datetime' opt_str' (Inr (df\<lparr>frame_rows := rows\<rparr>))
             = parse_csv to_datetime opt_str (Inr df)
         \<and> parse_csv to_datetime opt_str (Inl e) = Inl e"
proof -
  let ?ms = "filter (\<lambda>c. c \<notin> set (columns df)) required_csv"
  have s: "set ?ms = set required_csv - set (columns df)" by auto
  from assms have "set required_csv - set (columns df) \<noteq> {}" by auto
  with s have "set ?ms \<noteq> {}" by simp
  then have "?ms \<noteq> []" by (simp del: set_filter)
  then show ?thesis using s by (simp add: parse_csv_def Let_def)
qed

text \<open>
  An input without \<open>subject\<close>, read with a date conversion that would fail on every
  cell: the error names \<open>subject\<close>.
\<close>

theorem parse_csv_missing_columns_witness:
  "\<not> set required_csv \<subseteq> set (columns csv_without_subject)
   \<and> parse_csv (\<lambda>c. Inl (ValueError (py_str c))) (\<lambda>c. Inr None) (Inr csv_without_subject)
       = Inl (CsvMissingColumns [u ''subject''])"
proof -
  have h: "\<not> set required_csv \<subseteq> set (columns csv_without_subject)"
    by (simp add: required_csv_def csv_without_subject_def u_def)
  have f: "filter (\<lambda>c. c \<notin> set (columns csv_without_subject)) required_csv = [u ''subject'']"
    by (simp add: required_csv_def csv_without_subject_def u_def)
  from parse_csv_missing_columns [OF h, of "\<lambda>c. Inl (ValueError (py_str c))" "\<lambda>c. Inr None"] f
  have "parse_csv (\<lambda>c. Inl (ValueError (py_str c))) (\<lambda>c. Inr None) (Inr csv_without_subject)
          = Inl (CsvMissingColumns [u ''subject''])"
    by simp
  with h show ?thesis by simp
qed

text \<open>
  Claim C6, as it is stated, fails on a file whose header lacks \<open>subject\<close> and whose
  third line has more fields than the header: \<open>read_csv\<close> raises while it reads the
  data rows, and the error that leaves \<open>_parse_csv\<close> names no column.
\<close>

theorem parse_csv_read_error_first:
  "parse_csv (\<lambda>c. Inl (ValueError (py_str c))) (\<lambda>c. Inr None) ragged_csv_read
     = Inl (ParserError (u ''Expected 4 fields in line 3, saw 5''))"
  by code_simp

section \<open>The time ranges: properties\<close>

lemma py_strip_head:
  assumes "\<not> py_isspace c"
  shows "\<exists>t. py_strip (c # cs) = c # t"
proof -
  have "dropWhile py_isspace (rev cs @ [c]) = dropWhile py_isspace (rev cs) @ [c]"
    using assms by (simp add: dropWhile_append3)
  then show ?thesis using assms by (simp add: py_strip_def)
qed

lemma py_int_backslash: "py_int (92 # g) = Inl (ValueError (92 # g))"
proof -
  have "\<not> py_isspace 92" by (simp add: py_isspace_def)
  from py_strip_head [OF this] obtain t where t: "py_strip (92 # g) = 92 # t" by blast
  show ?thesis by (simp add: py_int_def t int_body_ok_def is_digit_def Let_def)
qed

lemma time_re_groups:
  assumes "time_re s = Some (g1, g2, g3, g4)"
  shows "\<exists>g. g1 = 92 # g"
  using assms
  by (auto simp: time_re_def rx_bs_d_def split: option.splits prod.splits)

text \<open>
  Every text that \<open>TIME_RE\<close> matches begins with a backslash, which \<open>int\<close> rejects:
  no row of a shared sheet ever becomes a lesson.
\<close>

lemma sheet_row_never_lesson: "sheet_row opt_str cols row \<noteq> Inr (Some l)"
proof (cases "row_attr_get cols row (u ''time'')")
  case (Inl e)
  then show ?thesis by (simp add: sheet_row_def)
next
  case (Inr tm)
  show ?thesis
  proof (cases "time_re (py_str tm)")
    case None
    then show ?thesis using Inr by (simp add: sheet_row_def)
  next
    case (Some gs)
    obtain g1 g2 g3 g4 where gs: "gs = (g1, g2, g3, g4)" by (cases gs) auto
    from time_re_groups Some gs obtain g where "g1 = 92 # g" by blast
    then show ?thesis using Inr Some gs by (simp add: sheet_row_def py_int_backslash)
  qed
qed

text \<open>A row whose time the pattern does match is not skipped: \<open>int\<close> raises on it.\<close>

lemma sheet_row_matched_raises:
  assumes "row_attr_get cols row (u ''time'') = Inr tm"
    and "time_re (py_str tm) = Some (g1, g2, g3, g4)"
  shows "sheet_row opt_str cols row = Inl (ValueError g1)"
proof -
  from time_re_groups [OF assms(2)] obtain g where "g1 = 92 # g" by blast
  then show ?thesis using assms by (simp add: sheet_row_def py_int_backslash)
qed

lemma sheet_rows_no_lessons: "sheet_rows opt_str cols rows acc = Inr ls \<Longrightarrow> ls = acc"
proof (induction rows arbitrary: acc)
  case Nil
  then show ?case by simp
next
  case (Cons row rows)
  then show ?case using sheet_row_never_lesson [of opt_str cols row]
    by (auto split: sum.splits option.splits)
qed

lemma df_to_lessons_no_lessons: "df_to_lessons opt_str df = Inr ls \<Longrightarrow> ls = []"
  by (auto simp: df_to_lessons_def Let_def dest: sheet_rows_no_lessons split: if_splits)

text \<open>
  Claim C3. The workbook parser reads \<open>10:30-12:05\<close>, with the hyphen or with the en
  dash U+2013, as 10:30 and 12:05. The pattern of the shared-sheet parser does not
  match \<open>10:30-12:05\<close>: the row of \<open>sheet_frame\<close> is skipped and no lesson comes out,
  whatever the validation of the optional fields does.
\<close>

theorem shared_sheet_time_range_skipped:
  "parse_time (u ''10:30-12:05'')
     = Inr (\<lparr>thour = 10, tminute = 30, tsecond = 0\<rparr>, \<lparr>thour = 12, tminute = 5, tsecond = 0\<rparr>)
   \<and> parse_time (u ''10:30'' @ [8211] @ u ''12:05'')
     = Inr (\<lparr>thour = 10, tminute = 30, tsecond = 0\<rparr>, \<lparr>thour = 12, tminute = 5, tsecond = 0\<rparr>)
   \<and> time_re (u ''10:30-12:05'') = None
   \<and> time_re (u ''10:30'' @ [8211] @ u ''12:05'') = None
   \<and> df_to_lessons opt_str sheet_frame = Inr []"
  by code_simp

section \<open>The store: properties\<close>

text \<open>
  What \<open>upsert_source_file\<close> does on a known digest: the id of the row is returned and
  the session is left as it was.
\<close>

lemma upsert_known_digest:
  assumes "\<not> needs_rollback s"
    and "filter (\<lambda>r. sf_sha256 r = m_sha256 meta) (tbl_source_file (current s)) = [r]"
    and "sf_id r \<noteq> 0"
  shows "upsert_source_file meta s = (Inr (sf_id r), s)"
  using assms by (simp add: upsert_source_file_def scalar_one_or_none_def)

text \<open>
  The id that \<open>upsert_source_file\<close> returns is never 0, for a known file and for a new
  one: the test \<open>if not sf_id\<close> of \<open>sync\<close> never holds, and a file whose digest is
  known is parsed and loaded like any other.
\<close>

lemma upsert_never_zero: "upsert_source_file meta s = (Inr i, s') \<Longrightarrow> i \<noteq> 0"
  by (auto simp: upsert_source_file_def insert_source_file_def next_id_def Let_def
           split: if_splits sum.splits option.splits)

lemma process_link_known_digest:
  assumes "fetch net (link_url link) = Inr f"
    and "\<not> needs_rollback s"
    and "filter (\<lambda>r. sf_sha256 r = file_sha256 f) (tbl_source_file (current s)) = [r]"
    and "sf_id r \<noteq> 0"
  shows "process_link net link s =
           (case file_rows f of
              Inl e \<Rightarrow> (Inl e, s)
            | Inr ws \<Rightarrow>
                (case parse_excel ws of
                   Inl e \<Rightarrow> (Inl e, s)
                 | Inr lessons \<Rightarrow> bulk_insert_lessons lessons (sf_id r) s))"
proof -
  have "upsert_source_file
          \<lparr>m_url = link_url link, m_sha256 = file_sha256 f, m_semester = None\<rparr> s
          = (Inr (sf_id r), s)"
    using assms(2-4) by (simp add: upsert_known_digest)
  then show ?thesis using assms(1,4) by (simp add: process_link_def)
qed

text \<open>
  Claim C1. The store holds the file with digest \<open>digest_a\<close> and its one lesson; the
  listing offers the same bytes at another URL. \<open>upsert_source_file\<close> returns the id 1
  of the known row and inserts no row; \<open>sync\<close> tests that id for falsehood, finds it
  true, and goes on to parse and load: afterwards the store has the one source file and
  the lesson twice.
\<close>

theorem sync_same_content_adds_lessons:
  "upsert_source_file \<lparr>m_url = link_url link_b, m_sha256 = digest_a, m_semester = None\<rparr>
       (new_session imported_store)
     = (Inr 1, new_session imported_store)
   \<and> (case sync same_content_net None (new_session imported_store) of
        (r, s, log) \<Rightarrow>
          r = Inr () \<and> log = []
          \<and> map sf_sha256 (tbl_source_file (committed s)) = [digest_a]
          \<and> map l_subject (tbl_lesson (committed s)) = [u ''Math'', u ''Math'']
          \<and> map l_source_id (tbl_lesson (committed s)) = [Some 1, Some 1])"
  by code_simp

text \<open>
  Until its final commit, \<open>bulk_insert_lessons\<close> writes to the open transaction only,
  so a batch that fails has committed nothing itself; and under \<open>get_session\<close> the
  failure is followed by a rollback: a failed \<open>_import_lessons\<close> leaves the store as it
  was.
\<close>

lemma get_group_unknown:
  assumes "group_cache b code = None"
    and "\<not> needs_rollback (db b)"
    and "code \<notin> g_code ` set (tbl_group (current (db b)))"
  shows "get_group code b
           = (Inl (RuntimeError (u ''Unknown group '' @ code @ u ''; import group seeds first'')), b)"
proof -
  from assms(3) have "filter (\<lambda>g. g_code g = code) (tbl_group (current (db b))) = []"
    by (auto simp: filter_empty_conv)
  then show ?thesis using assms(1,2) by (simp add: get_group_def scalar_one_or_none_def)
qed

lemma get_group_db: "get_group code b = (r, b') \<Longrightarrow> db b' = db b"
  by (auto simp: get_group_def split: option.splits if_splits sum.splits)

lemma room_committed:
  "get_or_create_room name b = (r, b') \<Longrightarrow>
   committed (db b') = committed (db b) \<and> needs_rollback (db b') = needs_rollback (db b)"
  by (auto simp: get_or_create_room_def Let_def
           split: option.splits if_splits sum.splits prod.splits)

lemma teacher_committed:
  "get_or_create_teacher name b = (r, b') \<Longrightarrow>
   committed (db b') = committed (db b) \<and> needs_rollback (db b') = needs_rollback (db b)"
  by (auto simp: get_or_create_teacher_def Let_def
           split: option.splits if_splits sum.splits prod.splits)

lemma resolve_opt_committed:
  assumes "\<And>s b r b'. f s b = (r, b') \<Longrightarrow>
             committed (db b') = committed (db b) \<and> needs_rollback (db b') = needs_rollback (db b)"
    and "resolve_opt f x b = (r, b')"
  shows "committed (db b') = committed (db b) \<and> needs_rollback (db b') = needs_rollback (db b)"
  using assms(2) assms(1)
  by (auto simp: resolve_opt_def split: option.splits if_splits sum.splits prod.splits)

lemma add_lesson_committed:
  assumes "add_lesson sid rec b = (r, b')"
  shows "committed (db b') = committed (db b) \<and> needs_rollback (db b') = needs_rollback (db b)"
proof -
  obtain r1 b1 where g: "get_group (group_code rec) b = (r1, b1)"
    by (cases "get_group (group_code rec) b")
  obtain r2 b2 where ro: "resolve_opt get_or_create_room (room rec) b1 = (r2, b2)"
    by (cases "resolve_opt get_or_create_room (room rec) b1")
  obtain r3 b3 where te: "resolve_opt get_or_create_teacher (teacher rec) b2 = (r3, b3)"
    by (cases "resolve_opt get_or_create_teacher (teacher rec) b2")
  note c1 = get_group_db [OF g]
  note c2 = resolve_opt_committed [OF room_committed ro]
  note c3 = resolve_opt_committed [OF teacher_committed te]
  show ?thesis using assms g ro te c1 c2 c3
    by (auto simp: add_lesson_def Let_def split: sum.splits)
qed

lemma add_lessons_committed:
  "add_lessons sid recs b = (r, b') \<Longrightarrow>
   committed (db b') = committed (db b) \<and> needs_rollback (db b') = needs_rollback (db b)"
proof (induction recs arbitrary: b)
  case Nil
  then show ?case by simp
next
  case (Cons rec recs)
  obtain r1 b1 where a: "add_lesson sid rec b = (r1, b1)"
    by (cases "add_lesson sid rec b")
  from add_lesson_committed [OF a] Cons a show ?case
    by (cases r1) auto
qed

lemma bulk_insert_failure_commits_nothing:
  assumes "bulk_insert_lessons lessons sid s = (Inl e, s')"
  shows "committed s' = committed s"
proof -
  let ?b0 = "\<lparr>db = s, group_cache = Map.empty, room_cache = Map.empty,
              teacher_cache = Map.empty\<rparr>"
  obtain r b where a: "add_lessons sid lessons ?b0 = (r, b)"
    by (cases "add_lessons sid lessons ?b0")
  from add_lessons_committed [OF a] have "committed (db b) = committed s" by simp
  then show ?thesis using assms a
    by (cases r) (auto simp: bulk_insert_lessons_def commit_def split: if_splits)
qed

lemma bulk_insert_success_usable:
  assumes "bulk_insert_lessons lessons sid s = (Inr v, s')"
  shows "\<not> needs_rollback s'"
  using assms
  by (auto simp: bulk_insert_lessons_def commit_def split: prod.splits sum.splits if_splits)

lemma upsert_committed: "upsert_source_file meta s = (r, s') \<Longrightarrow> committed s' = committed s"
  by (auto simp: upsert_source_file_def insert_source_file_def flush_failed_def Let_def
           split: if_splits sum.splits option.splits)

lemma import_lessons_atomic:
  assumes "import_lessons lessons source tbls = (Inl e, tbls')"
  shows "tbls' = tbls"
proof -
  obtain r1 s1 where u: "upsert_source_file source (new_session tbls) = (r1, s1)"
    by (cases "upsert_source_file source (new_session tbls)")
  from upsert_committed [OF u] have c1: "committed s1 = tbls" by (simp add: new_session_def)
  show ?thesis
  proof (cases r1)
    case (Inl e1)
    then show ?thesis using assms u c1
      by (simp add: import_lessons_def get_session_def rollback_def)
  next
    case (Inr sid)
    obtain r2 s2 where b: "bulk_insert_lessons lessons sid s1 = (r2, s2)"
      by (cases "bulk_insert_lessons lessons sid s1")
    show ?thesis
    proof (cases r2)
      case (Inl e2)
      from bulk_insert_failure_commits_nothing b Inl have "committed s2 = committed s1"
        by blast
      then show ?thesis using assms u Inr b Inl c1
        by (simp add: import_lessons_def get_session_def rollback_def)
    next
      case (Inr v)
      from bulk_insert_success_usable b Inr have "\<not> needs_rollback s2" by blast
      then show ?thesis using assms u \<open>r1 = Inr sid\<close> b Inr
        by (simp add: import_lessons_def get_session_def commit_def)
    qed
  qed
qed

text \<open>
  Claim C4. The first file's batch is the lesson of \<open>math_row\<close> followed by a lesson of
  the unknown group XX-999. Loaded through \<open>_import_lessons\<close>, the batch fails with the
  error naming XX-999 and the store is unchanged. Loaded by \<open>sync\<close>, the batch fails
  with the same error, which is logged; the session is not rolled back, and the commit
  that ends the second file's batch stores the Math lesson of the failed batch.
\<close>

theorem sync_commits_failed_batch:
  "import_lessons [math_lesson, physics_lesson]
       \<lparr>m_url = u ''uploaded:a.xlsx'', m_sha256 = digest_a, m_semester = None\<rparr> seeded_store
     = (Inl (RuntimeError (u ''Unknown group XX-999; import group seeds first'')), seeded_store)
   \<and> (case sync two_files_net None (new_session seeded_store) of
        (r, s, log) \<Rightarrow>
          r = Inr ()
          \<and> log = [(link_url link_a,
                     RuntimeError (u ''Unknown group XX-999; import group seeds first''))]
          \<and> map (\<lambda>l. (l_subject l, l_source_id l)) (tbl_lesson (committed s))
              = [(u ''Math'', Some 1), (u ''History'', Some 2)])"
  by code_simp

section \<open>The sync orchestrator: properties\<close>

lemma sync_links_log:
  "snd (sync_links net links s log) = log @ failures (zip links (outcomes net links s))"
proof (induction links arbitrary: s log)
  case Nil
  then show ?case by simp
next
  case (Cons link links)
  obtain r s' where p: "process_link net link s = (r, s')"
    by (cases "process_link net link s")
  show ?case
  proof (cases r)
    case (Inl e)
    then show ?thesis using p Cons.IH [of s' "log @ [(link_url link, e)]"] by simp
  next
    case (Inr v)
    then show ?thesis using p Cons.IH [of s' log] by simp
  qed
qed

lemma length_outcomes: "length (outcomes net links s) = length links"
  by (induction links arbitrary: s) (auto split: prod.splits)

text \<open>
  Claim C5, as the code has it. When the listing is fetched, \<open>sync\<close> returns normally
  whatever the downloads, the parser and the loader raise; the body has run for every
  link that the limit leaves, and the log has one line, with the URL of the link, for
  each body that raised.
\<close>

theorem sync_isolates_file_errors:
  assumes "listing net = Inr links"
  shows "fst (sync net limit s) = Inr ()
         \<and> length (outcomes net (apply_limit limit links) s) = length (apply_limit limit links)
         \<and> snd (snd (sync net limit s))
             = failures (zip (apply_limit limit links) (outcomes net (apply_limit limit links) s))"
  using assms sync_links_log [of net "apply_limit limit links" s "[]"]
  by (simp add: sync_def length_outcomes)

text \<open>
  The first download fails: the failure is logged with the URL of the first link, and the
  second file is loaded.
\<close>

theorem sync_isolates_file_errors_witness:
  "listing flaky_net = Inr [link_a, link_b]
   \<and> fst (sync flaky_net None (new_session seeded_store)) = Inr ()
   \<and> snd (snd (sync flaky_net None (new_session seeded_store)))
       = [(link_url link_a, HTTPError (u ''404 Not Found''))]
   \<and> map l_subject
        (tbl_lesson (committed (fst (snd (sync flaky_net None (new_session seeded_store))))))
       = [u ''History'']"
proof -
  have l: "listing flaky_net = Inr [link_a, link_b]" by (simp add: flaky_net_def)
  have o: "outcomes flaky_net [link_a, link_b] (new_session seeded_store)
             = [Inl (HTTPError (u ''404 Not Found'')), Inr ()]"
    by code_simp
  have c: "map l_subject
             (tbl_lesson (committed (fst (snd (sync flaky_net None (new_session seeded_store))))))
             = [u ''History'']"
    by code_simp
  from sync_isolates_file_errors [OF l, of None "new_session seeded_store"] o
  have "fst (sync flaky_net None (new_session seeded_store)) = Inr ()"
    and "snd (snd (sync flaky_net None (new_session seeded_store)))
           = [(link_url link_a, HTTPError (u ''404 Not Found''))]"
    by (simp_all add: apply_limit_def)
  with l c show ?thesis by simp
qed

text \<open>An error of the discovery step is what \<open>sync\<close> raises, with nothing done.\<close>

lemma sync_discovery_error:
  "listing net = Inl e \<Longrightarrow> sync net limit s = (Inl e, s, [])"
  by (simp add: sync_def)

text \<open>
  Claim C5, as it is stated, fails where the listing page cannot be fetched: the error
  of \<open>list_files\<close> leaves \<open>sync\<close>.
\<close>

theorem sync_discovery_failure_propagates:
  "fst (sync offline_net None (new_session seeded_store))
     = Inl (HTTPError (u ''503 Service Unavailable''))"
  by code_simp

section \<open>The schedule texts: properties\<close>

lemma starts_with_append: "starts_with p (p @ b)"
  by (induction p) auto

lemma py_in_prefix: "py_in p (p @ b)"
proof (cases "p @ b")
  case Nil
  then show ?thesis by simp
next
  case (Cons a list)
  have "starts_with p (p @ b)" by (rule starts_with_append)
  then show ?thesis using Cons by simp
qed

lemma py_in_mid: "py_in p (a @ p @ b)"
  by (induction a) (auto simp: py_in_prefix)

lemma day_empty_text_marker: "py_in no_lessons_marker (day_empty_text d)"
proof -
  have "day_empty_text d
          = ([128197, 32, 1053, 1072, 32] @ fmt_dmY d @ [32]) @ no_lessons_marker @ [33]"
    by (simp add: day_empty_text_def)
  then show ?thesis by (simp only: py_in_mid)
qed

text \<open>
  A day without lessons gives a text with the marker, from the cache or freshly made,
  as long as every cached day text has the marker (as in an empty cache).
\<close>

lemma day_without_lessons:
  assumes "\<forall>k t. day_cache st k = Some t \<longrightarrow> py_in no_lessons_marker t"
    and "lessons_for (store st) gid d = []"
  shows "\<exists>t st'. markdown_schedule_for_day gid d st = (Inr t, st')
           \<and> py_in no_lessons_marker t
           \<and> (\<forall>k t. day_cache st' k = Some t \<longrightarrow> py_in no_lessons_marker t)
           \<and> store st' = store st \<and> week_cache st' = week_cache st"
proof (cases "day_cache st (gid, iso_date d)")
  case None
  then show ?thesis using assms day_empty_text_marker [of d]
    by (auto simp: markdown_schedule_for_day_def Let_def)
next
  case (Some t)
  then show ?thesis using assms
    by (auto simp: markdown_schedule_for_day_def Let_def)
qed

lemma week_days_without_lessons:
  assumes "\<forall>k t. day_cache st k = Some t \<longrightarrow> py_in no_lessons_marker t"
    and "\<forall>i \<in> set idxs. \<exists>d. plus_days mon i = Inr d \<and> lessons_for (store st) gid d = []"
  shows "\<exists>st'. week_days gid mon idxs texts st = (Inr texts, st')"
  using assms
proof (induction idxs arbitrary: st)
  case Nil
  then show ?case by simp
next
  case (Cons i idxs)
  from Cons.prems obtain d
    where d: "plus_days mon i = Inr d" "lessons_for (store st) gid d = []"
    by auto
  from day_without_lessons [OF Cons.prems(1) d(2)] obtain t st1 where
    m: "markdown_schedule_for_day gid d st = (Inr t, st1)" "py_in no_lessons_marker t"
       "\<forall>k t. day_cache st1 k = Some t \<longrightarrow> py_in no_lessons_marker t" "store st1 = store st"
    by blast
  from Cons.prems(2) m(4)
  have "\<forall>i \<in> set idxs. \<exists>d. plus_days mon i = Inr d \<and> lessons_for (store st1) gid d = []"
    by auto
  from Cons.IH [OF m(3) this] obtain st'
    where "week_days gid mon idxs texts st1 = (Inr texts, st')"
    by blast
  then show ?case using d m by simp
qed

text \<open>
  The part of claim C9 about empty days and the empty week holds: on a miss of the week
  cache, a group without lessons on the six days from the given Monday gets the fixed
  text.
\<close>

lemma week_without_lessons:
  assumes "week_cache st (gid, iso_date mon) = None"
    and "\<forall>k t. day_cache st k = Some t \<longrightarrow> py_in no_lessons_marker t"
    and "\<forall>i \<in> {0, 1, 2, 3, 4, 5}. \<exists>d. plus_days mon i = Inr d \<and> lessons_for (store st) gid d = []"
  shows "fst (markdown_schedule_for_week gid mon st) = Inr week_empty_text"
proof -
  from assms(3)
  have "\<forall>i \<in> set [0, 1, 2, 3, 4, 5].
          \<exists>d. plus_days mon i = Inr d \<and> lessons_for (store st) gid d = []"
    by simp
  from week_days_without_lessons [OF assms(2) this, of "[]"] obtain st'
    where "week_days gid mon [0, 1, 2, 3, 4, 5] [] st = (Inr [], st')"
    by blast
  then show ?thesis using assms(1) by (simp add: markdown_schedule_for_week_def Let_def)
qed

text \<open>A day with a lesson, not in the cache: its text is never built.\<close>

lemma day_with_lessons_raises:
  assumes "day_cache st (gid, iso_date d) = None"
    and "lessons_for (store st) gid d \<noteq> []"
  shows "markdown_schedule_for_day gid d st = (Inl (AttributeError (u ''teacher'')), st)"
proof -
  from assms(2) obtain les rest where l: "lessons_for (store st) gid d = les # rest"
    by (cases "lessons_for (store st) gid d") auto
  have "lesson_lines 1 (les # rest) = Inl (AttributeError (u ''teacher''))"
    by (simp add: lesson_line_def read_relationship_def)
  then show ?thesis using assms(1) l by (simp add: markdown_schedule_for_day_def Let_def)
qed

text \<open>
  Claim C9. The group with id 1 has one lesson in the week, on Wednesday. The query
  finds it; formatting its line reads \<open>les.teacher\<close>, an attribute the mapped class does
  not have, and the \<open>AttributeError\<close> leaves the day function and the week function:
  no text for Wednesday is returned. A week without lessons gives the fixed text.
\<close>

theorem week_with_wednesday_lesson_raises:
  "lessons_for (store wednesday_state) 1 wednesday = [math_lesson_row\<lparr>l_date := wednesday\<rparr>]
   \<and> fst (markdown_schedule_for_day 1 wednesday wednesday_state)
       = Inl (AttributeError (u ''teacher''))
   \<and> fst (markdown_schedule_for_week 1 monday wednesday_state)
       = Inl (AttributeError (u ''teacher''))
   \<and> fst (markdown_schedule_for_week 1 monday empty_week_state) = Inr week_empty_text"
  by code_simp

end
